theory Spec2Isabelle
  imports Complex_Main "HOL-Library.Word"
begin

section \<open>Numeric conventions\<close>

text \<open>
  The detector of \<^verbatim>\<open>AKAZEFeatures.cpp\<close> computes on single-precision values. A
  finite single-precision value is modelled by the real number it denotes; infinities
  and NaN are outside the model. A single-precision operation of the source is the
  exact operation followed by rounding. The rounding \<open>fl\<close> and the library function
  \<^verbatim>\<open>pow\<close> are parameters of the model: a statement with a free \<open>a :: fp\<close>
  holds for every rounding, and exact arithmetic is the instance \<open>exact_fp\<close>. The
  contrast factor estimation is the one function modelled in exact arithmetic
  throughout.

  The cast \<^verbatim>\<open>(int)x\<close> of a floating value truncates towards zero. A 32-bit
  \<^verbatim>\<open>int\<close> product that leaves the range wraps around, as the compiled code
  does.
\<close>

definition int_of_float :: "real \<Rightarrow> int" where
  "int_of_float x = (if 0 \<le> x then \<lfloor>x\<rfloor> else \<lceil>x\<rceil>)"

definition in_int32 :: "int \<Rightarrow> bool" where
  "in_int32 v = (- (2 ^ 31) \<le> v \<and> v < 2 ^ 31)"

definition wrap32 :: "int \<Rightarrow> int" where
  "wrap32 v = sint (word_of_int v :: 32 word)"

record fp =
  fl :: "real \<Rightarrow> real"
  powf :: "real \<Rightarrow> real \<Rightarrow> real"

definition fadd :: "fp \<Rightarrow> real \<Rightarrow> real \<Rightarrow> real" where
  "fadd a u v = fl a (u + v)"

definition fsub :: "fp \<Rightarrow> real \<Rightarrow> real \<Rightarrow> real" where
  "fsub a u v = fl a (u - v)"

definition fmul :: "fp \<Rightarrow> real \<Rightarrow> real \<Rightarrow> real" where
  "fmul a u v = fl a (u * v)"

definition fdiv :: "fp \<Rightarrow> real \<Rightarrow> real \<Rightarrow> real" where
  "fdiv a u v = fl a (u / v)"

text \<open>The conversion \<^verbatim>\<open>(float)k\<close> of an \<^verbatim>\<open>int\<close>.\<close>

definition float_of_int :: "fp \<Rightarrow> int \<Rightarrow> real" where
  "float_of_int a k = fl a (real_of_int k)"

definition exact_fp :: fp where
  "exact_fp = \<lparr>fl = (\<lambda>v. v), powf = (\<lambda>b e. b powr e)\<rparr>"

section \<open>Matrices\<close>

text \<open>
  A \<^verbatim>\<open>cv::Mat\<close> of type \<^verbatim>\<open>CV_32F\<close> is a row-major buffer:
  \<^verbatim>\<open>M.ptr<float>(y)[x]\<close> is the element \<open>y * cols + x\<close> of the buffer.
  \<^verbatim>\<open>create\<close> keeps the buffer when the size already fits and allocates
  otherwise; freshly allocated storage holds no defined value, which the model writes
  as \<^term>\<open>undefined\<close>.
\<close>

record Mat =
  rows :: int
  cols :: int
  data :: "real list"

definition Mat_empty :: Mat where
  "Mat_empty = \<lparr>rows = 0, cols = 0, data = []\<rparr>"

definition Mat_create :: "int \<Rightarrow> int \<Rightarrow> Mat \<Rightarrow> Mat" where
  "Mat_create r c m =
     (if rows m = r \<and> cols m = c \<and> length (data m) = nat (r * c) then m
      else \<lparr>rows = r, cols = c, data = replicate (nat (r * c)) undefined\<rparr>)"

definition px :: "Mat \<Rightarrow> int \<Rightarrow> int \<Rightarrow> real" where
  "px m y x = data m ! nat (y * cols m + x)"

section \<open>Options, pyramid levels and keypoints\<close>

definition DESCRIPTOR_MLDB_UPRIGHT :: int where "DESCRIPTOR_MLDB_UPRIGHT = 4"
definition DESCRIPTOR_MLDB :: int where "DESCRIPTOR_MLDB = 5"

definition DIFF_PM_G1 :: int where "DIFF_PM_G1 = 0"
definition DIFF_PM_G2 :: int where "DIFF_PM_G2 = 1"
definition DIFF_WEICKERT :: int where "DIFF_WEICKERT = 2"
definition DIFF_CHARBONNIER :: int where "DIFF_CHARBONNIER = 3"

record AKAZEOptions =
  omax :: int
  nsublevels :: int
  img_width :: int
  img_height :: int
  soffset :: real
  derivative_factor :: real
  dthreshold :: real
  min_dthreshold :: real
  diffusivity :: int
  descriptor :: int
  descriptor_size :: int
  descriptor_channels :: int
  descriptor_pattern_size :: int
  kcontrast_percentile :: real
  kcontrast_nbins :: int

record Evolution =
  Lx :: Mat
  Ly :: Mat
  Lt :: Mat
  Lsmooth :: Mat
  Ldet :: Mat
  size_width :: int
  size_height :: int
  esigma :: real
  etime :: real
  octave :: int
  sublevel :: int
  sigma_size :: int
  octave_ratio :: real


text \<open>
  \<^verbatim>\<open>CV_Assert\<close> and \<^verbatim>\<open>CV_Error\<close> throw; a function that may throw returns
  a sum whose left side is the error.
\<close>

datatype cv_error = StsAssert | StsError int


section \<open>Descriptor matrix allocation\<close>




definition opts_mldb_256 :: AKAZEOptions where
  "opts_mldb_256 =
     \<lparr>omax = 4, nsublevels = 4, img_width = 640, img_height = 480,
      soffset = 16 / 10, derivative_factor = 15 / 10,
      dthreshold = 1 / 1000, min_dthreshold = 1 / 100000,
      diffusivity = DIFF_PM_G2, descriptor = DESCRIPTOR_MLDB,
      descriptor_size = 256, descriptor_channels = 3, descriptor_pattern_size = 10,
      kcontrast_percentile = 7 / 10, kcontrast_nbins = 300\<rparr>"


section \<open>Hessian determinant response\<close>

text \<open>
  \<^verbatim>\<open>compute_determinant\<close>: the destination is created with the size of
  \<open>Lxx\<close> and every element \<open>j < total\<close>, for the \<^verbatim>\<open>int\<close> product
  \<^verbatim>\<open>total = Lxx.cols * Lxx.rows\<close>, is written once, with
  \<^verbatim>\<open>(lxx[j] * lyy[j] - lxy[j] * lxy[j]) * sigma\<close> in single precision.
\<close>

definition compute_determinant :: "fp \<Rightarrow> Mat \<Rightarrow> Mat \<Rightarrow> Mat \<Rightarrow> Mat \<Rightarrow> real \<Rightarrow> Mat" where
  "compute_determinant a Lxx Lxy Lyy Ldet0 sigma =
     (let Mdet = Mat_create (rows Lxx) (cols Lxx) Ldet0;
          total = wrap32 (cols Lxx * rows Lxx)
      in Mdet\<lparr>data :=
           fold (\<lambda>j ldet. ldet[j :=
                   fmul a (fsub a (fmul a (data Lxx ! j) (data Lyy ! j))
                                  (fmul a (data Lxy ! j) (data Lxy ! j))) sigma])
             [0..<nat total] (data Mdet)\<rparr>)"

text \<open>
  \<^verbatim>\<open>(float)(e.sigma_size * e.sigma_size * e.sigma_size * e.sigma_size)\<close>: the
  product is evaluated from the left in 32-bit \<^verbatim>\<open>int\<close> and then converted.
\<close>

definition sigma_size_quat :: "fp \<Rightarrow> int \<Rightarrow> real" where
  "sigma_size_quat a s = float_of_int a (wrap32 (wrap32 (wrap32 (s * s) * s) * s))"

text \<open>
  The separable filter and the derivative kernels are library routines; the model
  takes them as parameters. \<open>compute_derivative_kernels f dx dy scale\<close> is the kernel
  pair written by the routine of that name, \<open>sepFilter2D f src kx ky\<close> the filtered
  image.
\<close>

record filters =
  compute_derivative_kernels :: "int \<Rightarrow> int \<Rightarrow> int \<Rightarrow> Mat \<times> Mat"
  sepFilter2D :: "Mat \<Rightarrow> Mat \<Rightarrow> Mat \<Rightarrow> Mat"

text \<open>
  One iteration of \<^verbatim>\<open>DeterminantHessianResponse::operator()\<close>: the kernels,
  the five filter passes, the release of \<open>Lsmooth\<close>, and the scaled determinant.
\<close>

definition DeterminantHessianResponse_level :: "fp \<Rightarrow> filters \<Rightarrow> Evolution \<Rightarrow> Evolution" where
  "DeterminantHessianResponse_level a f e =
     (let (DxKx, DxKy) = compute_derivative_kernels f 1 0 (sigma_size e);
          (DyKx, DyKy) = compute_derivative_kernels f 0 1 (sigma_size e);
          eLx = sepFilter2D f (Lsmooth e) DxKx DxKy;
          Lxx = sepFilter2D f eLx DxKx DxKy;
          Lxy = sepFilter2D f eLx DyKx DyKy;
          eLy = sepFilter2D f (Lsmooth e) DyKx DyKy;
          Lyy = sepFilter2D f eLy DyKx DyKy;
          sigma_size_quat = sigma_size_quat a (sigma_size e)
      in e\<lparr>Lx := eLx, Ly := eLy, Lsmooth := Mat_empty,
            Ldet := compute_determinant a Lxx Lxy Lyy (Ldet e) sigma_size_quat\<rparr>)"

text \<open>
  \<^verbatim>\<open>Compute_Determinant_Hessian_Response\<close> runs the body on every level; the
  levels are independent of each other.
\<close>

definition Compute_Determinant_Hessian_Response :: "fp \<Rightarrow> filters \<Rightarrow> Evolution list \<Rightarrow> Evolution list" where
  "Compute_Determinant_Hessian_Response a f ev = map (DeterminantHessianResponse_level a f) ev"

definition toy_filters :: filters where
  "toy_filters =
     \<lparr>compute_derivative_kernels =
        (\<lambda>dx dy s. (\<lparr>rows = 1, cols = 1, data = [real_of_int dx]\<rparr>,
                    \<lparr>rows = 1, cols = 1, data = [real_of_int dy]\<rparr>)),
      sepFilter2D =
        (\<lambda>src kx ky. src\<lparr>data := map (\<lambda>v. v * hd (data kx) + 2 * hd (data ky)) (data src)\<rparr>)\<rparr>"

definition level_2x2 :: Evolution where
  "level_2x2 =
     \<lparr>Lx = Mat_empty, Ly = Mat_empty, Lt = Mat_empty,
      Lsmooth = \<lparr>rows = 2, cols = 2, data = [1, 2, 3, 4]\<rparr>, Ldet = Mat_empty,
      size_width = 2, size_height = 2, esigma = 16 / 10, etime = 128 / 100,
      octave = 0, sublevel = 0, sigma_size = 2, octave_ratio = 1\<rparr>"

definition level_sigma216 :: Evolution where
  "level_sigma216 = level_2x2\<lparr>sigma_size := 216\<rparr>"

section \<open>Contrast factor\<close>

text \<open>
  \<^verbatim>\<open>Mat::empty()\<close>: no element.
\<close>

definition Mat_is_empty :: "Mat \<Rightarrow> bool" where
  "Mat_is_empty m = (rows m = 0 \<or> cols m = 0 \<or> data m = [])"

text \<open>
  \<^verbatim>\<open>compute_kcontrast\<close>. The first loop nest visits the interior pixels
  \<open>1 \<le> i < rows - 1\<close>, \<open>1 \<le> j + 1 < cols - 1\<close> in row-major order, stores the
  gradient norm of each in \<open>modg\<close> and keeps the running maximum \<open>hmax\<close>.
\<close>

definition gradient_norms :: "Mat \<Rightarrow> Mat \<Rightarrow> real list" where
  "gradient_norms Mx My =
     concat (map (\<lambda>i. map (\<lambda>j. sqrt (px Mx i (j + 1) * px Mx i (j + 1) + px My i (j + 1) * px My i (j + 1)))
                          [0..cols Mx - 2 - 1])
                 [1..rows Mx - 1 - 1])"

definition max_gradient :: "Mat \<Rightarrow> Mat \<Rightarrow> real" where
  "max_gradient Mx My = fold (\<lambda>dist hmax. max hmax dist) (gradient_norms Mx My) 0"

text \<open>
  The last loop, \<^verbatim>\<open>for (k = 1; k < nbins; k++)\<close>, returns from inside; the
  value after the loop is the fallback \<^verbatim>\<open>0.03f\<close>.
\<close>

function percentile_scan :: "real \<Rightarrow> int \<Rightarrow> int list \<Rightarrow> int \<Rightarrow> int \<Rightarrow> int \<Rightarrow> real" where
  "percentile_scan hmax nbins hist nthreshold k nelements =
     (if k < nbins
      then (if nelements \<ge> nthreshold then hmax * real_of_int k / real_of_int nbins
            else percentile_scan hmax nbins hist nthreshold (k + 1) (nelements + hist ! nat k))
      else 3 / 100)"
  by pat_completeness auto
termination
  by (relation "measure (\<lambda>(hmax, nbins, hist, nthreshold, k, nelements). nat (nbins - k))") auto

declare percentile_scan.simps [simp del]

text \<open>
  The temporary \<^verbatim>\<open>Mat modgs(Lx.rows - 2, Lx.cols - 2, CV_32F)\<close> is allocated
  before the loops. The constructor of \<^verbatim>\<open>cv::Mat\<close> asserts that no dimension
  is negative, so for an image of one row or one column the function throws there.
  The pixel count \<^verbatim>\<open>total = modgs.cols * modgs.rows\<close> is an \<^verbatim>\<open>int\<close> product;
  the arithmetic on the gradient norms is modelled in exact real numbers.
\<close>

definition compute_kcontrast :: "Mat \<Rightarrow> Mat \<Rightarrow> real \<Rightarrow> int \<Rightarrow> cv_error + real" where
  "compute_kcontrast Mx My perc nbins =
     (if \<not> nbins > 2 then Inl StsAssert
      else if Mat_is_empty Mx then Inl StsAssert
      else if rows Mx - 2 < 0 \<or> cols Mx - 2 < 0 then Inl StsAssert
      else
        (let modg = gradient_norms Mx My;
             total = wrap32 ((cols Mx - 2) * (rows Mx - 2));
             hmax = max_gradient Mx My
         in if hmax = 0 then Inr (3 / 100)
            else
              (let modg' = map (\<lambda>d. d * (real_of_int (nbins - 1) / hmax)) modg;
                   hist = fold (\<lambda>i h. h[nat (int_of_float (modg' ! i)) := h ! nat (int_of_float (modg' ! i)) + 1])
                            [0..<nat total] (replicate (nat nbins) 0);
                   nthreshold = int_of_float (real_of_int (total - hist ! 0) * perc)
               in Inr (percentile_scan hmax nbins hist nthreshold 1 0))))"

definition grad_3x3 :: Mat where
  "grad_3x3 = \<lparr>rows = 3, cols = 3, data = [0, 0, 0, 0, 3, 0, 0, 0, 0]\<rparr>"
definition zero_3x3 :: Mat where
  "zero_3x3 = \<lparr>rows = 3, cols = 3, data = [0, 0, 0, 0, 0, 0, 0, 0, 0]\<rparr>"
definition zero_1x5 :: Mat where
  "zero_1x5 = \<lparr>rows = 1, cols = 5, data = [0, 0, 0, 0, 0]\<rparr>"

section \<open>Pyramid geometry\<close>

text \<open>
  The helpers \<^verbatim>\<open>fRound\<close> and \<^verbatim>\<open>fastpow\<close>, the linear solver
  \<^verbatim>\<open>solve\<close> and the step generator \<^verbatim>\<open>fed_tau_by_process_time\<close> are
  declared outside the sources; the model takes them as parameters. \<open>solve A b\<close> is
  the vector written to \<^verbatim>\<open>dst\<close> for the matrix \<open>A = (a00, a01, a10, a11)\<close>;
  \<open>fed_tau_by_process_time T M tau_max reordering\<close> is the returned step count and the
  step list written to \<^verbatim>\<open>tau\<close>. \<open>descriptor_subsample\<close> is the part of
  \<^verbatim>\<open>generateDescriptorSubsample\<close> after its assertion, which draws the bit selection
  with the C library's \<^verbatim>\<open>rand\<close>: its value is the pair written to
  \<^verbatim>\<open>sampleList\<close> and \<^verbatim>\<open>comparisons\<close>, or the exception that ends it.
\<close>

record externals =
  fRound :: "real \<Rightarrow> int"
  fastpow :: "int \<Rightarrow> int \<Rightarrow> int"
  solve :: "real \<times> real \<times> real \<times> real \<Rightarrow> real \<times> real \<Rightarrow> real \<times> real"
  fed_tau_by_process_time :: "real \<Rightarrow> int \<Rightarrow> real \<Rightarrow> bool \<Rightarrow> int \<times> real list"
  descriptor_subsample :: "int \<Rightarrow> int \<Rightarrow> int \<Rightarrow> cv_error + Mat \<times> Mat"

text \<open>
  \<^verbatim>\<open>AKAZEFeatures::Allocate_Memory_Evolution\<close>, first loop nest. The body of
  the inner loop builds the level \<open>(i, j)\<close>:
  \<^verbatim>\<open>esigma = soffset*pow(2.f, (float)(j)/(float)(nsublevels) + i)\<close> and
  \<^verbatim>\<open>etime = 0.5f*(esigma*esigma)\<close>, every operation in single precision.
\<close>

definition evolution_step ::
  "fp \<Rightarrow> externals \<Rightarrow> AKAZEOptions \<Rightarrow> int \<Rightarrow> int \<Rightarrow> int \<Rightarrow> int \<Rightarrow> int \<Rightarrow> Evolution" where
  "evolution_step a x opts i pwr level_width level_height j =
     (let es = fmul a (soffset opts)
                 (powf a 2 (fadd a (fdiv a (float_of_int a j) (float_of_int a (nsublevels opts)))
                                   (float_of_int a i)))
      in \<lparr>Lx = Mat_empty, Ly = Mat_empty, Lt = Mat_empty, Lsmooth = Mat_empty,
          Ldet = Mat_empty,
          size_width = level_width, size_height = level_height,
          esigma = es, etime = fmul a (1 / 2) (fmul a es es),
          octave = i, sublevel = j,
          sigma_size = fRound x (fdiv a (fmul a es (derivative_factor opts)) (float_of_int a pwr)),
          octave_ratio = float_of_int a pwr\<rparr>)"

text \<open>
  The outer loop \<^verbatim>\<open>for (i = 0, power = 1; i <= omax - 1; i++, power *= 2)\<close>,
  with the 32-bit product \<^verbatim>\<open>power *= 2\<close>. On the size test it stores the clamped
  octave count and leaves the loop.
\<close>

function Allocate_octaves ::
  "fp \<Rightarrow> externals \<Rightarrow> AKAZEOptions \<Rightarrow> int \<Rightarrow> int \<Rightarrow> Evolution list
     \<Rightarrow> AKAZEOptions \<times> Evolution list" where
  "Allocate_octaves a x opts i pwr ev =
     (if i \<le> omax opts - 1
      then
        (let rfactor = fdiv a 1 (float_of_int a pwr);
             level_height = int_of_float (fmul a (float_of_int a (img_height opts)) rfactor);
             level_width = int_of_float (fmul a (float_of_int a (img_width opts)) rfactor)
         in if (level_width < 80 \<or> level_height < 40) \<and> i \<noteq> 0
            then (opts\<lparr>omax := i\<rparr>, ev)
            else Allocate_octaves a x opts (i + 1) (wrap32 (pwr * 2))
                   (ev @ map (evolution_step a x opts i pwr level_width level_height)
                           [0..nsublevels opts - 1]))
      else (opts, ev))"
  by pat_completeness auto
termination
  by (relation "measure (\<lambda>(a, x, opts, i, pwr, ev). nat (omax opts - i))") auto

declare Allocate_octaves.simps [simp del]

text \<open>
  The second loop asks the time-stepping library for the steps between consecutive
  levels, for the diffusion time \<^verbatim>\<open>evolution_[i].etime - evolution_[i - 1].etime\<close>.
\<close>

definition Allocate_tsteps :: "fp \<Rightarrow> externals \<Rightarrow> Evolution list \<Rightarrow> (int \<times> real list) list" where
  "Allocate_tsteps a x ev =
     map (\<lambda>i. fed_tau_by_process_time x (fsub a (etime (ev ! i)) (etime (ev ! (i - 1)))) 1 (1 / 4) True)
       [1..<length ev]"

text \<open>
  The members of \<^verbatim>\<open>AKAZEFeatures\<close> that the constructor sets:
  \<^verbatim>\<open>options_\<close>, \<^verbatim>\<open>evolution_\<close>, and the step counts and step lists
  \<^verbatim>\<open>nsteps_\<close> and \<^verbatim>\<open>tsteps_\<close>.
\<close>

record AKAZEFeatures =
  options :: AKAZEOptions
  evolution :: "Evolution list"
  nsteps :: "int list"
  tsteps :: "real list list"

definition Allocate_Memory_Evolution :: "fp \<Rightarrow> externals \<Rightarrow> AKAZEOptions \<Rightarrow> AKAZEFeatures" where
  "Allocate_Memory_Evolution a x opts =
     (let (opts', ev) = Allocate_octaves a x opts 0 1 [];
          taus = Allocate_tsteps a x ev
      in \<lparr>options = opts', evolution = ev, nsteps = map fst taus, tsteps = map snd taus\<rparr>)"

definition toy_externals :: externals where
  "toy_externals =
     \<lparr>fRound = (\<lambda>v. int_of_float (v + 1 / 2)),
      fastpow = (\<lambda>b e. b ^ nat e),
      solve = (\<lambda>(a00, a01, a10, a11) (b0, b1).
                 (let d = a00 * a11 - a01 * a10
                  in if d = 0 then (0, 0)
                     else ((a11 * b0 - a01 * b1) / d, (a00 * b1 - a10 * b0) / d))),
      fed_tau_by_process_time = (\<lambda>T M tau_max reordering. (1, [T])),
      descriptor_subsample = (\<lambda>nbits pattern_size nchannels. Inr (Mat_empty, Mat_empty))\<rparr>"








definition opts_tiny :: AKAZEOptions where
  "opts_tiny =
     \<lparr>omax = 2, nsublevels = 1, img_width = 160, img_height = 80,
      soffset = 2 powr (- 100), derivative_factor = 3 / 2,
      dthreshold = 1 / 1000, min_dthreshold = 1 / 100000,
      diffusivity = DIFF_PM_G2, descriptor = DESCRIPTOR_MLDB,
      descriptor_size = 0, descriptor_channels = 3, descriptor_pattern_size = 10,
      kcontrast_percentile = 7 / 10, kcontrast_nbins = 3\<rparr>"

section \<open>Nonlinear scale space\<close>

text \<open>
  The image operations of the library are parameters of the model:
  \<^verbatim>\<open>GaussianBlur\<close> (source, kernel size, sigma), \<^verbatim>\<open>Scharr\<close> (source, \<open>dx\<close>,
  \<open>dy\<close>), \<^verbatim>\<open>resize\<close> (source, width, height), \<^verbatim>\<open>add\<close>, and the four
  conductivity functions (\<open>Lx\<close>, \<open>Ly\<close>, contrast factor). So are the OpenCL
  kernel of the diffusion step (\<open>Lt\<close>, \<open>Lf\<close>, the buffer \<open>Lstep\<close>, step size), whose
  value is the new content of \<open>Lstep\<close>, or \<open>None\<close> when the kernel does not run and
  the scalar code takes over, and the scheduler \<^verbatim>\<open>parallel_for_\<close>:
  \<open>parallel_for_ranges n\<close> is the list of the sub-ranges of \<^verbatim>\<open>Range(0, n)\<close> that it
  calls the loop body on.
\<close>

record imgops =
  getGaussianKernelSize :: "real \<Rightarrow> int"
  GaussianBlur :: "Mat \<Rightarrow> int \<Rightarrow> real \<Rightarrow> Mat"
  Scharr :: "Mat \<Rightarrow> int \<Rightarrow> int \<Rightarrow> Mat"
  resize :: "Mat \<Rightarrow> int \<Rightarrow> int \<Rightarrow> Mat"
  add :: "Mat \<Rightarrow> Mat \<Rightarrow> Mat"
  pm_g1 :: "Mat \<Rightarrow> Mat \<Rightarrow> real \<Rightarrow> Mat"
  pm_g2 :: "Mat \<Rightarrow> Mat \<Rightarrow> real \<Rightarrow> Mat"
  weickert_diffusivity :: "Mat \<Rightarrow> Mat \<Rightarrow> real \<Rightarrow> Mat"
  charbonnier_diffusivity :: "Mat \<Rightarrow> Mat \<Rightarrow> real \<Rightarrow> Mat"
  ocl_non_linear_diffusion_step :: "Mat \<Rightarrow> Mat \<Rightarrow> Mat \<Rightarrow> real \<Rightarrow> Mat option"
  parallel_for_ranges :: "int \<Rightarrow> (int \<times> int) list"

text \<open>
  \<^verbatim>\<open>compute_diffusivity\<close>: the \<^verbatim>\<open>switch\<close> on the selector; the default case
  is \<^verbatim>\<open>CV_Error(diffusivity, ...)\<close>.
\<close>

definition compute_diffusivity :: "imgops \<Rightarrow> Mat \<Rightarrow> Mat \<Rightarrow> real \<Rightarrow> int \<Rightarrow> cv_error + Mat" where
  "compute_diffusivity g Mx My kcontrast d =
     (if d = DIFF_PM_G1 then Inr (pm_g1 g Mx My kcontrast)
      else if d = DIFF_PM_G2 then Inr (pm_g2 g Mx My kcontrast)
      else if d = DIFF_WEICKERT then Inr (weickert_diffusivity g Mx My kcontrast)
      else if d = DIFF_CHARBONNIER then Inr (charbonnier_diffusivity g Mx My kcontrast)
      else Inl (StsError d))"

text \<open>
  A store \<^verbatim>\<open>M.ptr<float>(y)[x] = v\<close>, at the flat index \<open>y * cols + x\<close>.
\<close>

definition wr :: "Mat \<Rightarrow> int \<Rightarrow> int \<Rightarrow> real \<Rightarrow> Mat" where
  "wr m y x v = m\<lparr>data := (data m)[nat (y * cols m + x) := v]\<rparr>"

text \<open>
  One term of the five-point stencil of \<^verbatim>\<open>nld_step_scalar_one_lane\<close>, in single
  precision: the conductivities of the pixel \<open>(y, x)\<close> and of its neighbour
  \<open>(y', x')\<close> are added and multiplied by the difference of the image.
\<close>

definition flux :: "fp \<Rightarrow> Mat \<Rightarrow> Mat \<Rightarrow> int \<Rightarrow> int \<Rightarrow> int \<Rightarrow> int \<Rightarrow> real" where
  "flux a lt lf y x y' x' = fmul a (fadd a (px lf y x) (px lf y' x')) (fsub a (px lt y' x') (px lt y x))"

text \<open>
  The three blocks of \<^verbatim>\<open>nld_step_scalar_one_lane\<close> store a row in the same
  order: \<^verbatim>\<open>dst[0]\<close>, then, after \<^verbatim>\<open>++dst\<close>, \<^verbatim>\<open>dst[j]\<close> for
  \<open>0 \<le> j < c\<close>, then \<^verbatim>\<open>dst[c]\<close>, where \<open>c = Lt.cols - 2\<close>.
\<close>

definition store_row :: "int \<Rightarrow> int \<Rightarrow> real \<Rightarrow> (int \<Rightarrow> real) \<Rightarrow> real \<Rightarrow> Mat \<Rightarrow> Mat" where
  "store_row r c v0 mid vc m =
     wr (fold (\<lambda>j m'. wr m' r (j + 1) (mid j)) [0..c - 1] (wr m r 0 v0)) r (c + 1) vc"

text \<open>The top row: the two corners are set to zero.\<close>

definition top_row :: "fp \<Rightarrow> Mat \<Rightarrow> Mat \<Rightarrow> real \<Rightarrow> Mat \<Rightarrow> Mat" where
  "top_row a lt lf step_size lstep =
     store_row 0 (cols lt - 2) 0
       (\<lambda>j. fmul a (fadd a (fadd a (flux a lt lf 0 (j + 1) 0 (j + 2)) (flux a lt lf 0 (j + 1) 0 j))
                            (flux a lt lf 0 (j + 1) 1 (j + 1))) step_size)
       0 lstep"

text \<open>A middle row: left-most column, middle columns, right-most column.\<close>

definition middle_row :: "fp \<Rightarrow> Mat \<Rightarrow> Mat \<Rightarrow> real \<Rightarrow> int \<Rightarrow> Mat \<Rightarrow> Mat" where
  "middle_row a lt lf step_size r lstep =
     (let c = cols lt - 2 in
      store_row r c
        (fmul a (fadd a (fadd a (flux a lt lf r 0 r 1) (flux a lt lf r 0 (r + 1) 0))
                        (flux a lt lf r 0 (r - 1) 0)) step_size)
        (\<lambda>j. fmul a (fadd a (fadd a (fadd a (flux a lt lf r (j + 1) r (j + 2)) (flux a lt lf r (j + 1) r j))
                                     (flux a lt lf r (j + 1) (r + 1) (j + 1)))
                             (flux a lt lf r (j + 1) (r - 1) (j + 1))) step_size)
        (fmul a (fadd a (fadd a (flux a lt lf r (c + 1) r c) (flux a lt lf r (c + 1) (r + 1) (c + 1)))
                        (flux a lt lf r (c + 1) (r - 1) (c + 1))) step_size)
        lstep)"

text \<open>The bottom row: the two corners are set to zero.\<close>

definition bottom_row :: "fp \<Rightarrow> Mat \<Rightarrow> Mat \<Rightarrow> real \<Rightarrow> int \<Rightarrow> Mat \<Rightarrow> Mat" where
  "bottom_row a lt lf step_size r lstep =
     store_row r (cols lt - 2) 0
       (\<lambda>j. fmul a (fadd a (fadd a (flux a lt lf r (j + 1) r (j + 2)) (flux a lt lf r (j + 1) r j))
                            (flux a lt lf r (j + 1) (r - 1) (j + 1))) step_size)
       0 lstep"

text \<open>
  \<^verbatim>\<open>nld_step_scalar_one_lane\<close> on the rows \<open>[row_begin, row_end)\<close>. After the
  loop over the middle rows, \<open>row\<close> is \<open>middle_end\<close> when the loop ran and is unchanged
  otherwise. Every store is inside the buffer when the image has at least two rows;
  on an image of one row the last block stores past the end of the buffer, where the
  model leaves the buffer as it is.
\<close>

definition nld_step_scalar_one_lane :: "fp \<Rightarrow> Mat \<Rightarrow> Mat \<Rightarrow> Mat \<Rightarrow> real \<Rightarrow> int \<Rightarrow> int \<Rightarrow> Mat" where
  "nld_step_scalar_one_lane a lt lf lstep0 step_size row_begin row_end =
     (let lstep = Mat_create (rows lt) (cols lt) lstep0;
          lstep1 = (if row_begin = 0 then top_row a lt lf step_size lstep else lstep);
          row = (if row_begin = 0 then 1 else row_begin);
          middle_end = min (rows lt - 1) row_end;
          lstep2 = fold (middle_row a lt lf step_size) [row..middle_end - 1] lstep1;
          row' = (if row < middle_end then middle_end else row)
      in if row_end = rows lt then bottom_row a lt lf step_size row' lstep2 else lstep2)"

text \<open>
  \<^verbatim>\<open>non_linear_diffusion_step\<close> creates \<open>Lstep\<close>, tries the OpenCL kernel, and
  otherwise hands \<^verbatim>\<open>Range(0, Lt.rows)\<close> to \<^verbatim>\<open>parallel_for_\<close>. The loop bodies
  write disjoint rows; the model runs them in the order of the list.
\<close>

definition non_linear_diffusion_step :: "fp \<Rightarrow> imgops \<Rightarrow> Mat \<Rightarrow> Mat \<Rightarrow> Mat \<Rightarrow> real \<Rightarrow> Mat" where
  "non_linear_diffusion_step a g lt lf lstep0 step_size =
     (let lstep = Mat_create (rows lt) (cols lt) lstep0
      in case ocl_non_linear_diffusion_step g lt lf lstep step_size of
           Some lstep' \<Rightarrow> lstep'
         | None \<Rightarrow>
             fold (\<lambda>(row_begin, row_end) m. nld_step_scalar_one_lane a lt lf m step_size row_begin row_end)
               (parallel_for_ranges g (rows lt)) lstep)"

text \<open>
  The sub-ranges that \<^verbatim>\<open>parallel_for_\<close> makes of a range \<open>[b, e)\<close> are consecutive,
  not empty, and cover it.
\<close>

fun is_split :: "int \<Rightarrow> int \<Rightarrow> (int \<times> int) list \<Rightarrow> bool" where
  "is_split b e [] = (b = e)"
| "is_split b e ((s, t) # rs) = (s = b \<and> b < t \<and> t \<le> e \<and> is_split t e rs)"

text \<open>
  Modelled from the spec: \<^verbatim>\<open>cv::add\<close> is not among the sources; \<^verbatim>\<open>add(Lt, Lstep,
  Lt)\<close> is the element-wise single-precision sum \<open>Lt + Lstep\<close>.
\<close>

definition Mat_add :: "fp \<Rightarrow> Mat \<Rightarrow> Mat \<Rightarrow> Mat" where
  "Mat_add a m1 m2 = m1\<lparr>data := map2 (fadd a) (data m1) (data m2)\<rparr>"

definition Mat_wf :: "Mat \<Rightarrow> bool" where
  "Mat_wf m = (0 \<le> rows m \<and> 0 \<le> cols m \<and> length (data m) = nat (rows m * cols m))"

text \<open>
  The state of \<^verbatim>\<open>Create_Nonlinear_Scale_Space\<close>: the pyramid, the exception that
  ended the function, if any, and, for the statements below, the contrast factors that
  \<^verbatim>\<open>compute_diffusivity\<close> was called with, in call order.
\<close>

record scale_space =
  levels :: "Evolution list"
  diffusivity_kcontrasts :: "real list"
  raised :: "cv_error option"

text \<open>
  The Fast Explicit Diffusion loop on \<open>Lt\<close>:
  \<^verbatim>\<open>step_size = tsteps[j] * 0.5f\<close>, the step into \<open>Lstep\<close>, and
  \<^verbatim>\<open>add(e.Lt, Lstep, e.Lt)\<close>.
\<close>

definition fed_steps :: "fp \<Rightarrow> imgops \<Rightarrow> Mat \<Rightarrow> real list \<Rightarrow> Mat \<times> Mat \<Rightarrow> Mat \<times> Mat" where
  "fed_steps a g Lflow taus =
     fold (\<lambda>t (eLt, Lstep).
             (let step_size = fmul a t (1 / 2);
                  Lstep' = non_linear_diffusion_step a g eLt Lflow Lstep step_size
              in (add g eLt Lstep', Lstep')))
       taus"

text \<open>
  The body of the loop over the levels \<open>i \<ge> 1\<close>, on the running contrast factor, the
  buffer \<open>Lstep\<close> and the state. An iteration after an exception does nothing.
\<close>

definition scale_space_level ::
  "fp \<Rightarrow> imgops \<Rightarrow> AKAZEFeatures \<Rightarrow> nat \<Rightarrow> real \<times> Mat \<times> scale_space \<Rightarrow> real \<times> Mat \<times> scale_space" where
  "scale_space_level a g st i = (\<lambda>(kcontrast, Lstep, s).
     (if raised s \<noteq> None then (kcontrast, Lstep, s)
      else
        (let e = levels s ! i;
             prev = levels s ! (i - 1);
             new_octave = (octave e > octave prev);
             eLt = (if new_octave then resize g (Lt prev) (size_width e) (size_height e) else Lt prev);
             kcontrast' = (if new_octave then fmul a kcontrast (3 / 4) else kcontrast);
             eLsmooth = GaussianBlur g eLt 5 1;
             Mx = Scharr g eLsmooth 1 0;
             My = Scharr g eLsmooth 0 1;
             calls = diffusivity_kcontrasts s @ [kcontrast']
         in case compute_diffusivity g Mx My kcontrast' (diffusivity (options st)) of
              Inl err \<Rightarrow>
                (kcontrast', Lstep,
                 s\<lparr>levels := (levels s)[i := e\<lparr>Lt := eLt, Lsmooth := eLsmooth\<rparr>],
                   diffusivity_kcontrasts := calls, raised := Some err\<rparr>)
            | Inr Lflow \<Rightarrow>
                (let (eLt', Lstep') = fed_steps a g Lflow (tsteps st ! (i - 1)) (eLt, Lstep)
                 in (kcontrast', Lstep',
                     s\<lparr>levels := (levels s)[i := e\<lparr>Lt := eLt', Lsmooth := eLsmooth\<rparr>],
                       diffusivity_kcontrasts := calls\<rparr>)))))"

text \<open>
  \<^verbatim>\<open>AKAZEFeatures::Create_Nonlinear_Scale_Space\<close>: the assertion on the pyramid,
  level \<open>0\<close>, the early return of a one-level pyramid, the contrast factor of the
  input image, the loop over the other levels, and the detector response.
\<close>

definition Create_Nonlinear_Scale_Space ::
  "fp \<Rightarrow> filters \<Rightarrow> imgops \<Rightarrow> AKAZEFeatures \<Rightarrow> Mat \<Rightarrow> scale_space" where
  "Create_Nonlinear_Scale_Space a f g st img =
     (if \<not> length (evolution st) > 0
      then \<lparr>levels = evolution st, diffusivity_kcontrasts = [], raised = Some StsAssert\<rparr>
      else
        (let ksize = getGaussianKernelSize g (soffset (options st));
             L0 = GaussianBlur g img ksize (soffset (options st));
             ev = (evolution st)[0 := (evolution st ! 0)\<lparr>Lsmooth := L0, Lt := L0\<rparr>]
         in if length ev = 1
            then \<lparr>levels = Compute_Determinant_Hessian_Response a f ev,
                  diffusivity_kcontrasts = [], raised = None\<rparr>
            else
              (let Lsmooth = GaussianBlur g img 5 1;
                   Mx = Scharr g Lsmooth 1 0;
                   My = Scharr g Lsmooth 0 1
               in case compute_kcontrast Mx My (kcontrast_percentile (options st))
                         (kcontrast_nbins (options st)) of
                    Inl err \<Rightarrow> \<lparr>levels = ev, diffusivity_kcontrasts = [], raised = Some err\<rparr>
                  | Inr kcontrast \<Rightarrow>
                      (let (kcontrast', Lstep, s) =
                             fold (scale_space_level a g st) [1..<length ev]
                               (kcontrast, Mat_empty,
                                \<lparr>levels = ev, diffusivity_kcontrasts = [], raised = None\<rparr>)
                       in if raised s \<noteq> None then s
                          else s\<lparr>levels := Compute_Determinant_Hessian_Response a f (levels s)\<rparr>))))"


definition toy_imgops :: imgops where
  "toy_imgops =
     \<lparr>getGaussianKernelSize = (\<lambda>sigma. 5),
      GaussianBlur = (\<lambda>m ksize sigma. m),
      Scharr = (\<lambda>m dx dy. if dx = 1 then m else m\<lparr>data := map (\<lambda>v. 0) (data m)\<rparr>),
      resize = (\<lambda>m w h. m),
      add = Mat_add exact_fp,
      pm_g1 = (\<lambda>Mx My k. Mx),
      pm_g2 = (\<lambda>Mx My k. Mx),
      weickert_diffusivity = (\<lambda>Mx My k. Mx),
      charbonnier_diffusivity = (\<lambda>Mx My k. Mx),
      ocl_non_linear_diffusion_step = (\<lambda>Mt Mf Mstep step_size. None),
      parallel_for_ranges = (\<lambda>n. [(0, n)])\<rparr>"


section \<open>Construction\<close>

text \<open>
  \<^verbatim>\<open>generateDescriptorSubsample\<close>: the capacity \<open>ssz\<close> of the full descriptor,
  \<open>6 + 36 + 120\<close> comparisons per channel with the \<^verbatim>\<open>int\<close> product
  \<^verbatim>\<open>ssz *= nchannels\<close>, and the assertion \<^verbatim>\<open>CV_Assert(nbits <= ssz)\<close>.
\<close>

definition generateDescriptorSubsample ::
  "externals \<Rightarrow> int \<Rightarrow> int \<Rightarrow> int \<Rightarrow> cv_error + Mat \<times> Mat" where
  "generateDescriptorSubsample x nbits pattern_size nchannels =
     (let ssz = fold (\<lambda>i ssz. (let gz = (i + 2) * (i + 2) in ssz + gz * (gz - 1) div 2)) [0, 1, 2] 0;
          ssz' = wrap32 (ssz * nchannels)
      in if \<not> nbits \<le> ssz' then Inl StsAssert
         else descriptor_subsample x nbits pattern_size nchannels)"

text \<open>
  The constructor \<^verbatim>\<open>AKAZEFeatures::AKAZEFeatures\<close>: the bit selection, for a binary
  descriptor with a requested bit length, and then \<^verbatim>\<open>Allocate_Memory_Evolution\<close>.
  The value is the pair \<^verbatim>\<open>descriptorSamples_\<close>, \<^verbatim>\<open>descriptorBits_\<close> with the
  other members, or the exception that ends the constructor.
\<close>

definition AKAZEFeatures_new ::
  "fp \<Rightarrow> externals \<Rightarrow> AKAZEOptions \<Rightarrow> cv_error + (Mat \<times> Mat) \<times> AKAZEFeatures" where
  "AKAZEFeatures_new a x opts =
     (if descriptor_size opts > 0 \<and> descriptor opts \<ge> DESCRIPTOR_MLDB_UPRIGHT
      then (case generateDescriptorSubsample x (descriptor_size opts) (descriptor_pattern_size opts)
                   (descriptor_channels opts) of
              Inl err \<Rightarrow> Inl err
            | Inr samples \<Rightarrow> Inr (samples, Allocate_Memory_Evolution a x opts))
      else Inr ((Mat_empty, Mat_empty), Allocate_Memory_Evolution a x opts))"

definition opts_bad_diffusivity :: AKAZEOptions where
  "opts_bad_diffusivity = opts_tiny\<lparr>soffset := 1, diffusivity := 7, descriptor_channels := 4\<rparr>"

definition ones_3x3 :: Mat where
  "ones_3x3 = \<lparr>rows = 3, cols = 3, data = [1, 1, 1, 1, 1, 1, 1, 1, 1]\<rparr>"

section \<open>Subpixel refinement\<close>













definition ones_2x2 :: Mat where
  "ones_2x2 = \<lparr>rows = 2, cols = 2, data = [1, 1, 1, 1]\<rparr>"

definition stale_2x2 :: Mat where
  "stale_2x2 = \<lparr>rows = 2, cols = 2, data = [7, 7, 7, 7]\<rparr>"

definition stale_3x3 :: Mat where
  "stale_3x3 = \<lparr>rows = 3, cols = 3, data = [7, 7, 7, 7, 7, 7, 7, 7, 7]\<rparr>"

definition ramp_3x3 :: Mat where
  "ramp_3x3 = \<lparr>rows = 3, cols = 3, data = [1, 2, 3, 4, 5, 6, 7, 8, 10]\<rparr>"

definition two_lanes :: imgops where
  "two_lanes = toy_imgops\<lparr>parallel_for_ranges := (\<lambda>n. [(0, 1), (1, n)])\<rparr>"

section \<open>Properties\<close>

subsection \<open>Hessian determinant response\<close>

lemma length_fold_update: "length (fold (\<lambda>j l. l[j := g j]) js xs) = length xs"
  by (induction js arbitrary: xs) auto

lemma fold_update_upt_nth:
  "j < n \<Longrightarrow> n \<le> length xs \<Longrightarrow> fold (\<lambda>j l. l[j := g j]) [0..<n] xs ! j = g j"
proof (induction n)
  case 0
  then show ?case by simp
next
  case (Suc n)
  show ?case
  proof (cases "j = n")
    case True
    with Suc.prems show ?thesis by (simp add: length_fold_update)
  next
    case False
    with Suc show ?thesis by simp
  qed
qed

lemma wrap32_id: "in_int32 v \<Longrightarrow> wrap32 v = v"
  by (simp add: wrap32_def in_int32_def sint_sbintrunc' signed_take_bit_int_eq_self)

lemma abs_in_int32: "\<bar>v\<bar> \<le> c \<Longrightarrow> c < 2 ^ 31 \<Longrightarrow> in_int32 v"
  unfolding in_int32_def by linarith

lemma sigma_size_quat_in_range:
  assumes "\<bar>s\<bar> \<le> (215::int)"
  shows "sigma_size_quat a s = fl a (real_of_int (s ^ 4))"
proof -
  have a0: "0 \<le> \<bar>s\<bar>" by simp
  have p2: "\<bar>s * s\<bar> \<le> 215 ^ 2"
    using power_mono [OF assms a0, of 2] by (simp add: power2_eq_square abs_mult)
  have p3: "\<bar>s * s * s\<bar> \<le> 215 ^ 3"
    using power_mono [OF assms a0, of 3] by (simp add: power3_eq_cube abs_mult)
  have p4: "\<bar>s * s * s * s\<bar> \<le> 215 ^ 4"
    using power_mono [OF assms a0, of 4] by (simp add: power4_eq_xxxx abs_mult)
  have w2: "wrap32 (s * s) = s * s"
    by (rule wrap32_id, rule abs_in_int32 [OF p2]) simp
  have w3: "wrap32 (s * s * s) = s * s * s"
    by (rule wrap32_id, rule abs_in_int32 [OF p3]) simp
  have w4: "wrap32 (s * s * s * s) = s * s * s * s"
    by (rule wrap32_id, rule abs_in_int32 [OF p4]) simp
  have p: "s * s * s * s = s ^ 4" by (simp add: power4_eq_xxxx)
  show ?thesis
    unfolding sigma_size_quat_def float_of_int_def by (simp only: w2 w3 w4) (simp only: p)
qed

lemma compute_determinant_nth:
  assumes "j < nat (cols Lxx * rows Lxx)" and "in_int32 (cols Lxx * rows Lxx)"
  shows "data (compute_determinant a Lxx Lxy Lyy Ldet0 sigma) ! j
         = fl a (fl a (fl a (data Lxx ! j * data Lyy ! j) - fl a (data Lxy ! j * data Lxy ! j))
                 * sigma)"
proof -
  have len: "length (data (Mat_create (rows Lxx) (cols Lxx) Ldet0)) = nat (rows Lxx * cols Lxx)"
    by (simp add: Mat_create_def)
  show ?thesis
    using assms(1) len
    by (simp add: compute_determinant_def Let_def fold_update_upt_nth mult.commute
        fmul_def fsub_def wrap32_id [OF assms(2)])
qed

lemma compute_determinant_size:
  "rows (compute_determinant a Lxx Lxy Lyy Ldet0 sigma) = rows Lxx"
  "cols (compute_determinant a Lxx Lxy Lyy Ldet0 sigma) = cols Lxx"
  "length (data (compute_determinant a Lxx Lxy Lyy Ldet0 sigma)) = nat (rows Lxx * cols Lxx)"
  by (simp_all add: compute_determinant_def Let_def Mat_create_def length_fold_update)

text \<open>
  C8 (as amended). For every level of the pyramid whose window size satisfies
  \<open>\<bar>sigma_size\<bar> \<le> 215\<close>, the range in which the \<^verbatim>\<open>int\<close> product
  \<open>sigma_size\<^sup>4\<close> does not overflow, and whose pixel count fits a 32-bit
  \<^verbatim>\<open>int\<close>, the response written by
  \<^verbatim>\<open>Compute_Determinant_Hessian_Response\<close> is at every pixel \<open>j\<close> the
  single-precision value of \<open>(Lxx * Lyy - Lxy * Lxy) * sigma_size\<^sup>4\<close>. Here \<open>Lxx\<close>,
  \<open>Lxy\<close>, \<open>Lyy\<close> are the second derivatives of the level: the smoothed image filtered
  twice with the derivative kernels of the level's window size, in \<open>x\<close> and \<open>x\<close>, in
  \<open>x\<close> and \<open>y\<close>, and in \<open>y\<close> and \<open>y\<close>.
\<close>

theorem Hessian_response_scaled_determinant:
  assumes "list_all (\<lambda>e. \<bar>sigma_size e\<bar> \<le> 215) ev"
  shows "length (Compute_Determinant_Hessian_Response a f ev) = length ev
     \<and> (\<forall>i < length ev.
          (let e = ev ! i;
               e' = Compute_Determinant_Hessian_Response a f ev ! i;
               Dx = compute_derivative_kernels f 1 0 (sigma_size e);
               Dy = compute_derivative_kernels f 0 1 (sigma_size e);
               Lxx = sepFilter2D f (sepFilter2D f (Lsmooth e) (fst Dx) (snd Dx)) (fst Dx) (snd Dx);
               Lxy = sepFilter2D f (sepFilter2D f (Lsmooth e) (fst Dx) (snd Dx)) (fst Dy) (snd Dy);
               Lyy = sepFilter2D f (sepFilter2D f (Lsmooth e) (fst Dy) (snd Dy)) (fst Dy) (snd Dy)
           in sigma_size e' = sigma_size e
            \<and> rows (Ldet e') = rows Lxx \<and> cols (Ldet e') = cols Lxx
            \<and> (in_int32 (cols Lxx * rows Lxx) \<longrightarrow>
                (\<forall>j < nat (cols Lxx * rows Lxx).
                  data (Ldet e') ! j =
                    fl a (fl a (fl a (data Lxx ! j * data Lyy ! j)
                                - fl a (data Lxy ! j * data Lxy ! j))
                          * fl a (real_of_int (sigma_size e ^ 4)))))))"
proof -
  have "sigma_size_quat a (sigma_size (ev ! i)) = fl a (real_of_int (sigma_size (ev ! i) ^ 4))"
    if "i < length ev" for i
    using assms that by (intro sigma_size_quat_in_range) (simp add: list_all_length)
  then show ?thesis
    by (simp add: Compute_Determinant_Hessian_Response_def DeterminantHessianResponse_level_def
        Let_def case_prod_unfold compute_determinant_nth compute_determinant_size)
qed

theorem Hessian_response_scaled_determinant_witness:
  "list_all (\<lambda>e. \<bar>sigma_size e\<bar> \<le> 215) [level_2x2]
   \<and> map (\<lambda>j. data (Ldet (Compute_Determinant_Hessian_Response exact_fp toy_filters [level_2x2] ! 0)) ! j)
         [0, 1, 2, 3] = [- 32, 0, 32, 64]"
proof -
  have h: "list_all (\<lambda>e. \<bar>sigma_size e\<bar> \<le> 215) [level_2x2]"
    by (simp add: level_2x2_def)
  have v: "sigma_size level_2x2 = 2" "Lsmooth level_2x2 = \<lparr>rows = 2, cols = 2, data = [1, 2, 3, 4]\<rparr>"
    by (simp_all add: level_2x2_def)
  have k: "compute_derivative_kernels toy_filters 1 0 2
             = (\<lparr>rows = 1, cols = 1, data = [1]\<rparr>, \<lparr>rows = 1, cols = 1, data = [0]\<rparr>)"
    "compute_derivative_kernels toy_filters 0 1 2
             = (\<lparr>rows = 1, cols = 1, data = [0]\<rparr>, \<lparr>rows = 1, cols = 1, data = [1]\<rparr>)"
    by (simp_all add: toy_filters_def)
  have sep: "sepFilter2D toy_filters src \<lparr>rows = 1, cols = 1, data = [1]\<rparr> \<lparr>rows = 1, cols = 1, data = [0]\<rparr>
               = src"
    "sepFilter2D toy_filters src \<lparr>rows = 1, cols = 1, data = [0]\<rparr> \<lparr>rows = 1, cols = 1, data = [1]\<rparr>
               = src\<lparr>data := map (\<lambda>v. 2) (data src)\<rparr>" for src
    by (simp_all add: toy_filters_def)
  have fle: "fl exact_fp u = u" for u by (simp add: exact_fp_def)
  have all4: "(\<forall>j<4. P j) \<longleftrightarrow> P 0 \<and> P 1 \<and> P 2 \<and> P (3::nat)" for P
  proof -
    have "j < 4 \<longleftrightarrow> j = 0 \<or> j = 1 \<or> j = 2 \<or> j = 3" for j :: nat by auto
    then show ?thesis by auto
  qed
  from Hessian_response_scaled_determinant [OF h, of exact_fp toy_filters]
  have "\<forall>j < 4. data (Ldet (Compute_Determinant_Hessian_Response exact_fp toy_filters [level_2x2] ! 0)) ! j
          = (([1, 2, 3, 4] ! j) * 2 - 4) * 16"
    by (simp add: Let_def v k sep fle all4 in_int32_def)
  then have "map (\<lambda>j. data (Ldet (Compute_Determinant_Hessian_Response exact_fp toy_filters [level_2x2] ! 0)) ! j)
         [0, 1, 2, 3] = [- 32, 0, 32, 64]"
    by (simp add: all4)
  with h show ?thesis by simp
qed

text \<open>
  The claim as stated, for every level, fails at \<open>sigma_size = 216\<close>: the product
  \<open>216\<^sup>4 = 2176782336\<close> wraps to \<open>- 2118184960\<close>, which single precision represents
  exactly, and the response at the first pixel, where \<open>Lxx * Lyy - Lxy * Lxy = - 2\<close>, is
  \<open>4236369920\<close> and not \<open>- 2 * 216\<^sup>4\<close>.
\<close>

theorem Hessian_response_counterexample:
  "map (\<lambda>j. data (Ldet (Compute_Determinant_Hessian_Response exact_fp toy_filters [level_sigma216] ! 0)) ! j)
         [0, 1, 2, 3] = [4236369920, 0, - 4236369920, - 8472739840]
   \<and> (1 * 2 - 2 * 2) * real_of_int (216 ^ 4) = - 4353564672"
  by (simp add: Compute_Determinant_Hessian_Response_def DeterminantHessianResponse_level_def
      compute_determinant_def sigma_size_quat_def float_of_int_def wrap32_def Mat_create_def
      Mat_empty_def level_sigma216_def level_2x2_def toy_filters_def exact_fp_def fmul_def
      fsub_def Let_def eval_nat_numeral)

subsection \<open>Descriptor matrix shape\<close>




subsection \<open>Contrast factor\<close>


lemma fold_max_all_zero:
  "\<forall>d \<in> set ds. d = 0 \<Longrightarrow> fold (\<lambda>dist hmax. max hmax dist) ds (0::real) = 0"
  by (induction ds) auto



lemma gradient_norms_zero:
  assumes "\<forall>i j. 1 \<le> i \<and> i < rows Mx - 1 \<and> 1 \<le> j \<and> j < cols Mx - 1 \<longrightarrow> px Mx i j = 0 \<and> px My i j = 0"
  shows "\<forall>d \<in> set (gradient_norms Mx My). d = 0"
  using assms by (auto simp: gradient_norms_def)

lemma fold_max_upper: "d \<in> set ds \<Longrightarrow> d \<le> fold (\<lambda>dist hmax. max hmax dist) ds (h::real)"
proof (induction ds arbitrary: h)
  case Nil
  then show ?case by simp
next
  case (Cons a ds)
  have mono: "h' \<le> fold (\<lambda>dist hmax. max hmax dist) ds h'" for h'
    by (induction ds arbitrary: h') (auto intro: order_trans [OF max.cobounded1])
  from Cons show ?case
    by (auto intro: order_trans [OF max.cobounded2 mono])
qed

lemma gradient_norms_bounds:
  "d \<in> set (gradient_norms Mx My) \<Longrightarrow> 0 \<le> d \<and> d \<le> max_gradient Mx My"
  by (auto simp: max_gradient_def fold_max_upper gradient_norms_def)

lemma hist_index_in_range:
  assumes "0 < hmax" "0 \<le> d" "d \<le> hmax" "2 < nbins"
  shows "0 \<le> int_of_float (d * (real_of_int (nbins - 1) / hmax))
       \<and> int_of_float (d * (real_of_int (nbins - 1) / hmax)) < nbins"
proof -
  let ?v = "d * (real_of_int (nbins - 1) / hmax)"
  have nb: "0 \<le> real_of_int (nbins - 1)" using assms(4) by simp
  have v0: "0 \<le> ?v" using assms nb by simp
  have "d / hmax \<le> 1" using assms by simp
  then have "(d / hmax) * real_of_int (nbins - 1) \<le> 1 * real_of_int (nbins - 1)"
    using nb by (rule mult_right_mono)
  then have v1: "?v \<le> real_of_int (nbins - 1)" by (simp add: field_simps)
  have "\<lfloor>?v\<rfloor> \<le> \<lfloor>real_of_int (nbins - 1)\<rfloor>" using v1 by (rule floor_mono)
  then have "\<lfloor>?v\<rfloor> \<le> nbins - 1" by simp
  moreover have "0 \<le> \<lfloor>?v\<rfloor>" using v0 by simp
  ultimately show ?thesis using v0 by (simp add: int_of_float_def)
qed

text \<open>
  C3 (as amended). For a gradient image of at least two rows and two columns, when the
  gradient is zero at every interior pixel, the maximum gradient norm is \<open>0\<close> and
  \<^verbatim>\<open>compute_kcontrast\<close> returns the fallback constant \<open>0.03\<close>. The first two
  hypotheses are the function's own assertions; without the bound on the size the
  function throws.
\<close>

theorem compute_kcontrast_fallback:
  assumes "2 < nbins" and "\<not> Mat_is_empty Mx" and "2 \<le> rows Mx" and "2 \<le> cols Mx"
    and "\<forall>i j. 1 \<le> i \<and> i < rows Mx - 1 \<and> 1 \<le> j \<and> j < cols Mx - 1 \<longrightarrow> px Mx i j = 0 \<and> px My i j = 0"
  shows "max_gradient Mx My = 0 \<and> compute_kcontrast Mx My perc nbins = Inr (3 / 100)"
proof -
  have "max_gradient Mx My = 0"
    unfolding max_gradient_def
    by (rule fold_max_all_zero) (rule gradient_norms_zero [OF assms(5)])
  with assms(1-4) show ?thesis by (simp add: compute_kcontrast_def)
qed

text \<open>
  The claim as stated, for every input whose gradient is zero at every interior pixel,
  fails on an image of one row: it has no interior pixel, and the function throws
  instead of returning \<open>0.03\<close>.
\<close>

theorem compute_kcontrast_fallback_counterexample:
  "\<not> Mat_is_empty zero_1x5
   \<and> compute_kcontrast zero_1x5 zero_1x5 (7 / 10) 300 = Inl StsAssert"
  by (simp add: compute_kcontrast_def Mat_is_empty_def zero_1x5_def)

theorem compute_kcontrast_fallback_witness:
  "(2::int) < 300 \<and> \<not> Mat_is_empty zero_3x3 \<and> 2 \<le> rows zero_3x3 \<and> 2 \<le> cols zero_3x3
   \<and> px zero_3x3 1 1 = 0
   \<and> compute_kcontrast zero_3x3 zero_3x3 (7 / 10) 300 = Inr (3 / 100)"
proof -
  have h1: "(2::int) < 300" by simp
  have h2: "\<not> Mat_is_empty zero_3x3" by (simp add: Mat_is_empty_def zero_3x3_def)
  have h3: "\<forall>i j. 1 \<le> i \<and> i < rows zero_3x3 - 1 \<and> 1 \<le> j \<and> j < cols zero_3x3 - 1
              \<longrightarrow> px zero_3x3 i j = 0 \<and> px zero_3x3 i j = 0"
    by (auto simp: zero_3x3_def px_def)
  have h4: "2 \<le> rows zero_3x3" "2 \<le> cols zero_3x3" by (simp_all add: zero_3x3_def)
  have "px zero_3x3 1 1 = 0" by (simp add: zero_3x3_def px_def)
  with h1 h2 h4 compute_kcontrast_fallback [OF h1 h2 h4 h3, of "7 / 10"] show ?thesis by simp
qed

subsection \<open>Evolution times\<close>













































subsection \<open>Contrast factor in the scale space\<close>










subsection \<open>Configuration errors\<close>

lemma scale_space_level_raised:
  "raised s \<noteq> None \<Longrightarrow> fold (scale_space_level a g st) is (kc, Lstep, s) = (kc, Lstep, s)"
  by (induction "is") (simp_all add: scale_space_level_def)

lemma Create_invalid_diffusivity:
  assumes d: "diffusivity (options st) \<notin> {DIFF_PM_G1, DIFF_PM_G2, DIFF_WEICKERT, DIFF_CHARBONNIER}"
    and v: "compute_kcontrast (Scharr g (GaussianBlur g img 5 1) 1 0) (Scharr g (GaussianBlur g img 5 1) 0 1)
              (kcontrast_percentile (options st)) (kcontrast_nbins (options st)) = Inr v"
    and n: "2 \<le> length (evolution st)"
  shows "raised (Create_Nonlinear_Scale_Space a f g st img) = Some (StsError (diffusivity (options st)))"
    and "Lt (levels (Create_Nonlinear_Scale_Space a f g st img) ! 0)
           = GaussianBlur g img (getGaussianKernelSize g (soffset (options st))) (soffset (options st))"
    and "length (diffusivity_kcontrasts (Create_Nonlinear_Scale_Space a f g st img)) = 1"
proof -
  define L0 where "L0 = GaussianBlur g img (getGaussianKernelSize g (soffset (options st))) (soffset (options st))"
  define ev where "ev = (evolution st)[0 := (evolution st ! 0)\<lparr>Lsmooth := L0, Lt := L0\<rparr>]"
  define s0 where "s0 = \<lparr>levels = ev, diffusivity_kcontrasts = [], raised = None\<rparr>"
  have len: "length ev = length (evolution st)" by (simp add: ev_def)
  have up: "[1..<length ev] = 1 # [Suc 1..<length ev]"
    by (rule upt_conv_Cons) (use n len in simp)
  have cd: "compute_diffusivity g Mx My kc (diffusivity (options st)) = Inl (StsError (diffusivity (options st)))"
    for Mx My kc
    using d by (simp add: compute_diffusivity_def)
  obtain kc1 s1 where one: "scale_space_level a g st 1 (v, Mat_empty, s0) = (kc1, Mat_empty, s1)"
    and r1: "raised s1 = Some (StsError (diffusivity (options st)))"
    and l1: "levels s1 ! 0 = ev ! 0" and c1: "length (diffusivity_kcontrasts s1) = 1"
    by (simp add: scale_space_level_def Let_def cd s0_def)
  have fo: "fold (scale_space_level a g st) [1..<length ev] (v, Mat_empty, s0) = (kc1, Mat_empty, s1)"
    using one r1 unfolding up by (simp add: scale_space_level_raised)
  have ne: "evolution st \<noteq> []" "length (evolution st) \<noteq> 1" "length (evolution st) \<noteq> Suc 0" using n by auto
  have res: "Create_Nonlinear_Scale_Space a f g st img = s1"
    using v fo ne r1
    by (simp add: Create_Nonlinear_Scale_Space_def Let_def L0_def [symmetric] ev_def [symmetric]
        s0_def [symmetric] len)
  show "raised (Create_Nonlinear_Scale_Space a f g st img) = Some (StsError (diffusivity (options st)))"
    by (simp add: res r1)
  show "Lt (levels (Create_Nonlinear_Scale_Space a f g st img) ! 0)
           = GaussianBlur g img (getGaussianKernelSize g (soffset (options st))) (soffset (options st))"
    using ne by (simp add: res l1 ev_def L0_def)
  show "length (diffusivity_kcontrasts (Create_Nonlinear_Scale_Space a f g st img)) = 1"
    by (simp add: res c1)
qed

lemma Create_one_level:
  assumes "length (evolution st) = 1"
  shows "raised (Create_Nonlinear_Scale_Space a f g st img) = None"
  using assms by (simp add: Create_Nonlinear_Scale_Space_def Let_def)

text \<open>
  C5 (as amended). Of the three configuration errors only the bit length is checked
  before any pyramid work. For a binary descriptor with a requested bit length
  \<open>b > 0\<close> that exceeds the capacity, the \<^verbatim>\<open>int\<close> product
  \<open>(6 + 36 + 120) * channels\<close>, the constructor throws before
  \<^verbatim>\<open>Allocate_Memory_Evolution\<close> runs. With no requested bit length the constructor
  checks nothing: it succeeds for every channel count and every diffusivity selector.
  An invalid diffusivity selector is reported by \<^verbatim>\<open>Create_Nonlinear_Scale_Space\<close>,
  with the selector as error code, at the first call of \<^verbatim>\<open>compute_diffusivity\<close>:
  for a pyramid of two or more levels on which the contrast factor was computed, after
  level \<open>0\<close> has been built from the blurred image; for a pyramid of one level it is
  not reported at all.
\<close>

theorem configuration_errors:
  "(descriptor_size opts > 0 \<and> descriptor opts \<ge> DESCRIPTOR_MLDB_UPRIGHT
      \<and> descriptor_size opts > wrap32 ((6 + 36 + 120) * descriptor_channels opts)
      \<longrightarrow> AKAZEFeatures_new a x opts = Inl StsAssert)
   \<and> (descriptor_size opts = 0
      \<longrightarrow> AKAZEFeatures_new a x opts
            = Inr ((Mat_empty, Mat_empty), Allocate_Memory_Evolution a x opts))
   \<and> (diffusivity (options st) \<notin> {DIFF_PM_G1, DIFF_PM_G2, DIFF_WEICKERT, DIFF_CHARBONNIER}
      \<and> compute_kcontrast (Scharr g (GaussianBlur g img 5 1) 1 0) (Scharr g (GaussianBlur g img 5 1) 0 1)
            (kcontrast_percentile (options st)) (kcontrast_nbins (options st)) = Inr v
      \<and> 2 \<le> length (evolution st)
      \<longrightarrow> raised (Create_Nonlinear_Scale_Space a f g st img) = Some (StsError (diffusivity (options st)))
        \<and> Lt (levels (Create_Nonlinear_Scale_Space a f g st img) ! 0)
              = GaussianBlur g img (getGaussianKernelSize g (soffset (options st))) (soffset (options st))
        \<and> length (diffusivity_kcontrasts (Create_Nonlinear_Scale_Space a f g st img)) = 1)
   \<and> (length (evolution st) = 1
      \<longrightarrow> raised (Create_Nonlinear_Scale_Space a f g st img) = None)"
proof (intro conjI impI)
  assume "descriptor_size opts > 0 \<and> descriptor opts \<ge> DESCRIPTOR_MLDB_UPRIGHT
      \<and> descriptor_size opts > wrap32 ((6 + 36 + 120) * descriptor_channels opts)"
  then show "AKAZEFeatures_new a x opts = Inl StsAssert"
    by (simp add: AKAZEFeatures_new_def generateDescriptorSubsample_def Let_def)
next
  assume "descriptor_size opts = 0"
  then show "AKAZEFeatures_new a x opts
            = Inr ((Mat_empty, Mat_empty), Allocate_Memory_Evolution a x opts)"
    by (simp add: AKAZEFeatures_new_def)
next
  assume h: "diffusivity (options st) \<notin> {DIFF_PM_G1, DIFF_PM_G2, DIFF_WEICKERT, DIFF_CHARBONNIER}
      \<and> compute_kcontrast (Scharr g (GaussianBlur g img 5 1) 1 0) (Scharr g (GaussianBlur g img 5 1) 0 1)
            (kcontrast_percentile (options st)) (kcontrast_nbins (options st)) = Inr v
      \<and> 2 \<le> length (evolution st)"
  then have d: "diffusivity (options st) \<notin> {DIFF_PM_G1, DIFF_PM_G2, DIFF_WEICKERT, DIFF_CHARBONNIER}"
    and v: "compute_kcontrast (Scharr g (GaussianBlur g img 5 1) 1 0) (Scharr g (GaussianBlur g img 5 1) 0 1)
            (kcontrast_percentile (options st)) (kcontrast_nbins (options st)) = Inr v"
    and n: "2 \<le> length (evolution st)"
    by blast+
  show "raised (Create_Nonlinear_Scale_Space a f g st img) = Some (StsError (diffusivity (options st)))"
    by (rule Create_invalid_diffusivity(1) [OF d v n])
  show "Lt (levels (Create_Nonlinear_Scale_Space a f g st img) ! 0)
              = GaussianBlur g img (getGaussianKernelSize g (soffset (options st))) (soffset (options st))"
    by (rule Create_invalid_diffusivity(2) [OF d v n])
  show "length (diffusivity_kcontrasts (Create_Nonlinear_Scale_Space a f g st img)) = 1"
    by (rule Create_invalid_diffusivity(3) [OF d v n])
next
  assume "length (evolution st) = 1"
  then show "raised (Create_Nonlinear_Scale_Space a f g st img) = None"
    by (rule Create_one_level)
qed

lemma Allocate_bad_diffusivity:
  "evolution (Allocate_Memory_Evolution exact_fp toy_externals opts_bad_diffusivity)
     = [evolution_step exact_fp toy_externals opts_bad_diffusivity 0 1 160 80 0,
        evolution_step exact_fp toy_externals opts_bad_diffusivity 1 2 80 40 0]"
  "options (Allocate_Memory_Evolution exact_fp toy_externals opts_bad_diffusivity) = opts_bad_diffusivity"
proof -
  have sel: "omax opts_bad_diffusivity = 2" "nsublevels opts_bad_diffusivity = 1"
    "img_width opts_bad_diffusivity = 160" "img_height opts_bad_diffusivity = 80"
    by (simp_all add: opts_bad_diffusivity_def opts_tiny_def)
  have u: "[0..0] = [0::int]" by (simp add: upto.simps)
  have dims: "int_of_float (fmul exact_fp (float_of_int exact_fp 80) (fdiv exact_fp 1 (float_of_int exact_fp 1))) = 80"
    "int_of_float (fmul exact_fp (float_of_int exact_fp 160) (fdiv exact_fp 1 (float_of_int exact_fp 1))) = 160"
    "int_of_float (fmul exact_fp (float_of_int exact_fp 80) (fdiv exact_fp 1 (float_of_int exact_fp 2))) = 40"
    "int_of_float (fmul exact_fp (float_of_int exact_fp 160) (fdiv exact_fp 1 (float_of_int exact_fp 2))) = 80"
    by (simp_all add: exact_fp_def fmul_def fdiv_def float_of_int_def int_of_float_def)
  have 2: "Allocate_octaves exact_fp toy_externals opts_bad_diffusivity 2 pwr ev = (opts_bad_diffusivity, ev)"
    for pwr ev
    by (subst Allocate_octaves.simps) (simp add: sel)
  have 1: "Allocate_octaves exact_fp toy_externals opts_bad_diffusivity 1 2 ev
      = (opts_bad_diffusivity, ev @ [evolution_step exact_fp toy_externals opts_bad_diffusivity 1 2 80 40 0])"
    for ev
    by (subst Allocate_octaves.simps) (simp add: sel dims Let_def u 2)
  have ao: "Allocate_octaves exact_fp toy_externals opts_bad_diffusivity 0 1 []
      = (opts_bad_diffusivity,
         [evolution_step exact_fp toy_externals opts_bad_diffusivity 0 1 160 80 0,
          evolution_step exact_fp toy_externals opts_bad_diffusivity 1 2 80 40 0])"
    by (subst Allocate_octaves.simps) (simp add: sel dims Let_def u 1 wrap32_def)
  show "evolution (Allocate_Memory_Evolution exact_fp toy_externals opts_bad_diffusivity)
     = [evolution_step exact_fp toy_externals opts_bad_diffusivity 0 1 160 80 0,
        evolution_step exact_fp toy_externals opts_bad_diffusivity 1 2 80 40 0]"
    by (simp add: Allocate_Memory_Evolution_def ao Let_def)
  show "options (Allocate_Memory_Evolution exact_fp toy_externals opts_bad_diffusivity) = opts_bad_diffusivity"
    by (simp add: Allocate_Memory_Evolution_def ao Let_def)
qed

lemma toy_gradients:
  "Scharr toy_imgops (GaussianBlur toy_imgops grad_3x3 5 1) 1 0 = grad_3x3"
  "Scharr toy_imgops (GaussianBlur toy_imgops grad_3x3 5 1) 0 1 = zero_3x3"
  "compute_kcontrast grad_3x3 zero_3x3 (7 / 10) 3 = Inr 1"
proof -
  show "Scharr toy_imgops (GaussianBlur toy_imgops grad_3x3 5 1) 1 0 = grad_3x3"
    by (simp add: toy_imgops_def)
  show "Scharr toy_imgops (GaussianBlur toy_imgops grad_3x3 5 1) 0 1 = zero_3x3"
    by (simp add: toy_imgops_def grad_3x3_def zero_3x3_def)
  show "compute_kcontrast grad_3x3 zero_3x3 (7 / 10) 3 = Inr 1"
    by (simp add: compute_kcontrast_def gradient_norms_def grad_3x3_def zero_3x3_def px_def
        upto.simps max_gradient_def Mat_is_empty_def int_of_float_def Let_def
        percentile_scan.simps wrap32_def)
qed

lemma bad_diffusivity_premises:
  "diffusivity (options (Allocate_Memory_Evolution exact_fp toy_externals opts_bad_diffusivity))
     \<notin> {DIFF_PM_G1, DIFF_PM_G2, DIFF_WEICKERT, DIFF_CHARBONNIER}"
  "diffusivity (options (Allocate_Memory_Evolution exact_fp toy_externals opts_bad_diffusivity)) = 7"
  "compute_kcontrast (Scharr toy_imgops (GaussianBlur toy_imgops grad_3x3 5 1) 1 0)
     (Scharr toy_imgops (GaussianBlur toy_imgops grad_3x3 5 1) 0 1)
     (kcontrast_percentile (options (Allocate_Memory_Evolution exact_fp toy_externals opts_bad_diffusivity)))
     (kcontrast_nbins (options (Allocate_Memory_Evolution exact_fp toy_externals opts_bad_diffusivity))) = Inr 1"
  "2 \<le> length (evolution (Allocate_Memory_Evolution exact_fp toy_externals opts_bad_diffusivity))"
proof -
  have sel: "diffusivity opts_bad_diffusivity = 7" "kcontrast_percentile opts_bad_diffusivity = 7 / 10"
    "kcontrast_nbins opts_bad_diffusivity = 3"
    by (simp_all add: opts_bad_diffusivity_def opts_tiny_def)
  show "diffusivity (options (Allocate_Memory_Evolution exact_fp toy_externals opts_bad_diffusivity))
     \<notin> {DIFF_PM_G1, DIFF_PM_G2, DIFF_WEICKERT, DIFF_CHARBONNIER}"
    by (simp add: Allocate_bad_diffusivity(2) sel DIFF_PM_G1_def DIFF_PM_G2_def DIFF_WEICKERT_def
        DIFF_CHARBONNIER_def)
  show "diffusivity (options (Allocate_Memory_Evolution exact_fp toy_externals opts_bad_diffusivity)) = 7"
    by (simp add: Allocate_bad_diffusivity(2) sel)
  show "compute_kcontrast (Scharr toy_imgops (GaussianBlur toy_imgops grad_3x3 5 1) 1 0)
     (Scharr toy_imgops (GaussianBlur toy_imgops grad_3x3 5 1) 0 1)
     (kcontrast_percentile (options (Allocate_Memory_Evolution exact_fp toy_externals opts_bad_diffusivity)))
     (kcontrast_nbins (options (Allocate_Memory_Evolution exact_fp toy_externals opts_bad_diffusivity))) = Inr 1"
    by (simp only: Allocate_bad_diffusivity(2) sel toy_gradients)
  show "2 \<le> length (evolution (Allocate_Memory_Evolution exact_fp toy_externals opts_bad_diffusivity))"
    by (simp add: Allocate_bad_diffusivity(1))
qed

theorem configuration_errors_witness:
  "descriptor_size (opts_mldb_256\<lparr>descriptor_size := 487\<rparr>) > 0
   \<and> descriptor (opts_mldb_256\<lparr>descriptor_size := 487\<rparr>) \<ge> DESCRIPTOR_MLDB_UPRIGHT
   \<and> descriptor_size (opts_mldb_256\<lparr>descriptor_size := 487\<rparr>)
       > wrap32 ((6 + 36 + 120) * descriptor_channels (opts_mldb_256\<lparr>descriptor_size := 487\<rparr>))
   \<and> AKAZEFeatures_new exact_fp toy_externals (opts_mldb_256\<lparr>descriptor_size := 487\<rparr>) = Inl StsAssert
   \<and> 2 \<le> length (evolution (Allocate_Memory_Evolution exact_fp toy_externals opts_bad_diffusivity))
   \<and> raised (Create_Nonlinear_Scale_Space exact_fp toy_filters toy_imgops
         (Allocate_Memory_Evolution exact_fp toy_externals opts_bad_diffusivity) grad_3x3)
       = Some (StsError 7)"
proof -
  let ?o = "opts_mldb_256\<lparr>descriptor_size := 487\<rparr>"
  have h: "descriptor_size ?o > 0" "descriptor ?o \<ge> DESCRIPTOR_MLDB_UPRIGHT"
    "descriptor_size ?o > wrap32 ((6 + 36 + 120) * descriptor_channels ?o)"
    by (simp_all add: opts_mldb_256_def DESCRIPTOR_MLDB_def DESCRIPTOR_MLDB_UPRIGHT_def wrap32_def)
  have a: "AKAZEFeatures_new exact_fp toy_externals ?o = Inl StsAssert"
    using configuration_errors [of ?o exact_fp toy_externals] h by blast
  have b: "raised (Create_Nonlinear_Scale_Space exact_fp toy_filters toy_imgops
         (Allocate_Memory_Evolution exact_fp toy_externals opts_bad_diffusivity) grad_3x3)
       = Some (StsError 7)"
    using configuration_errors [where st = "Allocate_Memory_Evolution exact_fp toy_externals opts_bad_diffusivity"
        and g = toy_imgops and img = grad_3x3 and v = 1 and a = exact_fp and f = toy_filters]
      bad_diffusivity_premises
    by simp
  show ?thesis
    by (intro conjI) (fact h(1), fact h(2), fact h(3), fact a, fact bad_diffusivity_premises(4), fact b)
qed

text \<open>
  The claim as stated fails for the diffusivity selector \<open>7\<close> with \<open>4\<close> channels
  on a pyramid of two levels: the constructor accepts the configuration and allocates
  the pyramid, and the error is raised when level \<open>0\<close> has already been computed from
  the image.
\<close>

theorem configuration_errors_counterexample:
  "AKAZEFeatures_new exact_fp toy_externals opts_bad_diffusivity
     = Inr ((Mat_empty, Mat_empty), Allocate_Memory_Evolution exact_fp toy_externals opts_bad_diffusivity)
   \<and> diffusivity opts_bad_diffusivity = 7 \<and> descriptor_channels opts_bad_diffusivity = 4
   \<and> length (evolution (Allocate_Memory_Evolution exact_fp toy_externals opts_bad_diffusivity)) = 2
   \<and> raised (Create_Nonlinear_Scale_Space exact_fp toy_filters toy_imgops
         (Allocate_Memory_Evolution exact_fp toy_externals opts_bad_diffusivity) grad_3x3)
       = Some (StsError 7)
   \<and> Lt (levels (Create_Nonlinear_Scale_Space exact_fp toy_filters toy_imgops
         (Allocate_Memory_Evolution exact_fp toy_externals opts_bad_diffusivity) grad_3x3) ! 0)
       = grad_3x3"
proof -
  let ?st = "Allocate_Memory_Evolution exact_fp toy_externals opts_bad_diffusivity"
  have c: "AKAZEFeatures_new exact_fp toy_externals opts_bad_diffusivity = Inr ((Mat_empty, Mat_empty), ?st)"
    by (simp add: AKAZEFeatures_new_def opts_bad_diffusivity_def opts_tiny_def)
  have s: "diffusivity opts_bad_diffusivity = 7" "descriptor_channels opts_bad_diffusivity = 4"
    by (simp_all add: opts_bad_diffusivity_def opts_tiny_def)
  have n: "length (evolution ?st) = 2" by (simp add: Allocate_bad_diffusivity(1))
  have r: "raised (Create_Nonlinear_Scale_Space exact_fp toy_filters toy_imgops ?st grad_3x3) = Some (StsError 7)"
    using Create_invalid_diffusivity(1) [OF bad_diffusivity_premises(1,3,4), of exact_fp toy_filters]
    by (simp only: bad_diffusivity_premises(2))
  have "Lt (levels (Create_Nonlinear_Scale_Space exact_fp toy_filters toy_imgops ?st grad_3x3) ! 0)
      = GaussianBlur toy_imgops grad_3x3 (getGaussianKernelSize toy_imgops (soffset (options ?st)))
          (soffset (options ?st))"
    by (rule Create_invalid_diffusivity(2) [OF bad_diffusivity_premises(1,3,4)])
  then have l: "Lt (levels (Create_Nonlinear_Scale_Space exact_fp toy_filters toy_imgops ?st grad_3x3) ! 0)
      = grad_3x3"
    by (simp add: toy_imgops_def)
  show ?thesis
    by (intro conjI) (fact c, fact s(1), fact s(2), fact n, fact r, fact l)
qed

subsection \<open>Subpixel refinement\<close>





subsection \<open>Diffusion step\<close>

lemma wr_fields [simp]:
  "rows (wr m y x v) = rows m" "cols (wr m y x v) = cols m"
  "length (data (wr m y x v)) = length (data m)"
  by (simp_all add: wr_def)

lemma px_wr:
  "px (wr m y x v) y' x' =
     (if nat (y * cols m + x) = nat (y' * cols m + x') \<and> nat (y * cols m + x) < length (data m)
      then v else px m y' x')"
proof (cases "nat (y * cols m + x) = nat (y' * cols m + x')")
  case True
  then show ?thesis
    by (cases "nat (y * cols m + x) < length (data m)")
       (simp_all add: wr_def px_def list_update_beyond)
next
  case False
  then show ?thesis by (simp add: wr_def px_def)
qed

lemma fold_wr_fields [simp]:
  "rows (fold (\<lambda>j m'. wr m' r (g j) (f j)) js m) = rows m"
  "cols (fold (\<lambda>j m'. wr m' r (g j) (f j)) js m) = cols m"
  "length (data (fold (\<lambda>j m'. wr m' r (g j) (f j)) js m)) = length (data m)"
  by (induction js arbitrary: m) simp_all

lemma px_fold_wr_other:
  assumes "\<forall>j \<in> set js. nat (r * cols m + g j) \<noteq> nat (y' * cols m + x')"
  shows "px (fold (\<lambda>j m'. wr m' r (g j) (f j)) js m) y' x' = px m y' x'"
  using assms by (induction js arbitrary: m) (simp_all add: px_wr)

lemma flat_index_less:
  assumes "0 \<le> x" "x < C" "0 \<le> y" "y < (y'::int)"
  shows "y * C + x < y' * C"
proof -
  have "y * C + x < (y + 1) * C" using assms(2) by (simp add: algebra_simps)
  also have "(y + 1) * C \<le> y' * C"
    using assms by (intro mult_right_mono) auto
  finally show ?thesis .
qed

lemma flat_index_neq:
  assumes "0 \<le> x" "x < C" "0 \<le> x'" "x' < C" "0 \<le> y" "0 \<le> y'" "y \<noteq> (y'::int)"
  shows "nat (y * C + x) \<noteq> nat (y' * C + x')"
proof -
  have C: "0 < C" using assms(1,2) by simp
  have nn: "0 \<le> y * C + x" "0 \<le> y' * C + x'" using assms C by simp_all
  consider "y < y'" | "y' < y" using assms(7) by linarith
  then have "y * C + x \<noteq> y' * C + x'"
  proof cases
    case 1
    from flat_index_less [OF assms(1,2,5) 1] assms(3) show ?thesis by linarith
  next
    case 2
    from flat_index_less [OF assms(3,4,6) 2] assms(1) show ?thesis by linarith
  qed
  with nn show ?thesis by simp
qed

lemma flat_index_in_range:
  assumes "0 \<le> x" "x < C" "0 \<le> y" "y < (R::int)"
  shows "nat (y * C + x) < nat (R * C)"
proof -
  have "y * C + x < R * C" by (rule flat_index_less [OF assms])
  moreover have "0 \<le> y * C + x" using assms by simp
  ultimately show ?thesis by simp
qed

lemma store_row_fields [simp]:
  "rows (store_row r c v0 mid vc m) = rows m"
  "cols (store_row r c v0 mid vc m) = cols m"
  "length (data (store_row r c v0 mid vc m)) = length (data m)"
  by (simp_all add: store_row_def)

lemma px_store_row_other:
  assumes "1 \<le> cols m" "0 \<le> r" "0 \<le> y'" "y' \<noteq> r" "0 \<le> x'" "x' < cols m"
  shows "px (store_row r (cols m - 2) v0 mid vc m) y' x' = px m y' x'"
proof -
  have a: "nat (r * cols m + (cols m - 2 + 1)) \<noteq> nat (y' * cols m + x')"
    using assms by (intro flat_index_neq) auto
  have b: "\<forall>j \<in> set [0..cols m - 2 - 1]. nat (r * cols m + (j + 1)) \<noteq> nat (y' * cols m + x')"
  proof
    fix j assume "j \<in> set [0..cols m - 2 - 1]"
    then have "0 \<le> j + 1" "j + 1 < cols m" by auto
    then show "nat (r * cols m + (j + 1)) \<noteq> nat (y' * cols m + x')"
      using assms by (intro flat_index_neq) auto
  qed
  have c: "nat (r * cols m + 0) \<noteq> nat (y' * cols m + x')"
    using assms by (intro flat_index_neq) auto
  have "px (fold (\<lambda>j m'. wr m' r (j + 1) (mid j)) [0..cols m - 2 - 1] (wr m r 0 v0)) y' x'
        = px (wr m r 0 v0) y' x'"
    by (rule px_fold_wr_other) (use b in simp)
  also have "\<dots> = px m y' x'" using c by (simp add: px_wr)
  finally show ?thesis using a by (simp add: store_row_def px_wr)
qed

lemma px_store_row_corners:
  assumes "1 \<le> cols m" "0 \<le> r" "r < rows m" "length (data m) = nat (rows m * cols m)"
  shows "px (store_row r (cols m - 2) 0 mid 0 m) r 0 = 0"
    and "px (store_row r (cols m - 2) 0 mid 0 m) r (cols m - 1) = 0"
proof -
  let ?C = "cols m"
  have in0: "nat (r * ?C + 0) < length (data m)"
    unfolding assms(4) using assms by (intro flat_index_in_range) auto
  have inC: "nat (r * ?C + (?C - 2 + 1)) < length (data m)"
    unfolding assms(4) using assms by (intro flat_index_in_range) auto
  show "px (store_row r (?C - 2) 0 mid 0 m) r (?C - 1) = 0"
    using inC by (simp add: store_row_def px_wr)
  have rC: "0 \<le> r * ?C" using assms(1,2) by simp
  have b: "\<forall>j \<in> set [0..?C - 2 - 1]. nat (r * ?C + (j + 1)) \<noteq> nat (r * ?C + 0)"
    using rC by auto
  have "px (fold (\<lambda>j m'. wr m' r (j + 1) (mid j)) [0..?C - 2 - 1] (wr m r 0 0)) r 0
        = px (wr m r 0 0) r 0"
    by (rule px_fold_wr_other) (use b in simp)
  also have "\<dots> = 0" using in0 by (simp add: px_wr)
  finally show "px (store_row r (?C - 2) 0 mid 0 m) r 0 = 0"
    by (simp add: store_row_def px_wr)
qed

lemma row_fields [simp]:
  "rows (top_row p lt lf s m) = rows m" "cols (top_row p lt lf s m) = cols m"
  "length (data (top_row p lt lf s m)) = length (data m)"
  "rows (middle_row p lt lf s r m) = rows m" "cols (middle_row p lt lf s r m) = cols m"
  "length (data (middle_row p lt lf s r m)) = length (data m)"
  "rows (bottom_row p lt lf s r m) = rows m" "cols (bottom_row p lt lf s r m) = cols m"
  "length (data (bottom_row p lt lf s r m)) = length (data m)"
  by (simp_all add: top_row_def middle_row_def bottom_row_def Let_def)

lemma fold_middle_fields [simp]:
  "rows (fold (middle_row p lt lf s) rs m) = rows m"
  "cols (fold (middle_row p lt lf s) rs m) = cols m"
  "length (data (fold (middle_row p lt lf s) rs m)) = length (data m)"
  by (induction rs arbitrary: m) simp_all

lemma px_middle_row_other:
  assumes "cols m = cols lt" "1 \<le> cols lt" "0 \<le> r" "0 \<le> y'" "y' \<noteq> r" "0 \<le> x'" "x' < cols lt"
  shows "px (middle_row p lt lf s r m) y' x' = px m y' x'"
  using px_store_row_other [of m r y' x'] assms
  by (simp add: middle_row_def Let_def)

lemma px_fold_middle_other:
  assumes "cols m = cols lt" "1 \<le> cols lt" "\<forall>r \<in> set rs. 0 \<le> r \<and> r \<noteq> y'"
    "0 \<le> y'" "0 \<le> x'" "x' < cols lt"
  shows "px (fold (middle_row p lt lf s) rs m) y' x' = px m y' x'"
  using assms
proof (induction rs arbitrary: m)
  case Nil
  then show ?case by simp
next
  case (Cons r rs)
  have "px (fold (middle_row p lt lf s) rs (middle_row p lt lf s r m)) y' x'
        = px (middle_row p lt lf s r m) y' x'"
    using Cons.prems by (intro Cons.IH) simp_all
  also have "\<dots> = px m y' x'"
    using Cons.prems by (intro px_middle_row_other) simp_all
  finally show ?case by simp
qed

lemma px_top_row_other:
  assumes "cols m = cols lt" "1 \<le> cols lt" "0 \<le> y'" "y' \<noteq> 0" "0 \<le> x'" "x' < cols lt"
  shows "px (top_row p lt lf s m) y' x' = px m y' x'"
  using px_store_row_other [of m 0 y' x'] assms
  by (simp add: top_row_def)

lemma px_bottom_row_other:
  assumes "cols m = cols lt" "1 \<le> cols lt" "0 \<le> r" "0 \<le> y'" "y' \<noteq> r" "0 \<le> x'" "x' < cols lt"
  shows "px (bottom_row p lt lf s r m) y' x' = px m y' x'"
  using px_store_row_other [of m r y' x'] assms
  by (simp add: bottom_row_def)

lemma Mat_create_fields [simp]:
  "rows (Mat_create r c m) = r" "cols (Mat_create r c m) = c"
  "length (data (Mat_create r c m)) = nat (r * c)"
  by (simp_all add: Mat_create_def)

lemma Mat_create_same:
  "rows m = r \<Longrightarrow> cols m = c \<Longrightarrow> length (data m) = nat (r * c) \<Longrightarrow> Mat_create r c m = m"
  by (simp add: Mat_create_def)

lemma lane_fields [simp]:
  "rows (nld_step_scalar_one_lane p lt lf m s b e) = rows lt"
  "cols (nld_step_scalar_one_lane p lt lf m s b e) = cols lt"
  "length (data (nld_step_scalar_one_lane p lt lf m s b e)) = nat (rows lt * cols lt)"
  by (simp_all add: nld_step_scalar_one_lane_def Let_def)

text \<open>The row handled by the last block of a lane that ends at the last row.\<close>

lemma lane_bottom_row_index:
  assumes "2 \<le> R" "0 \<le> b" "b < R"
  shows "(if (if b = 0 then 1 else b) < min (R - 1) R then min (R - 1) R
          else (if b = 0 then 1 else b)) = (R - 1 :: int)"
  using assms by auto

lemma lane_frame:
  assumes wf: "rows m = rows lt" "cols m = cols lt" "length (data m) = nat (rows lt * cols lt)"
    and dims: "2 \<le> rows lt" "1 \<le> cols lt"
    and rng: "0 \<le> b" "b < e" "e \<le> rows lt"
    and out: "0 \<le> y'" "y' < b \<or> e \<le> y'" "0 \<le> x'" "x' < cols lt"
  shows "px (nld_step_scalar_one_lane p lt lf m s b e) y' x' = px m y' x'"
proof -
  define row where "row = (if b = 0 then 1 else b)"
  define middle_end where "middle_end = min (rows lt - 1) e"
  define row' where "row' = (if row < middle_end then middle_end else row)"
  define m1 where "m1 = (if b = 0 then top_row p lt lf s m else m)"
  define m2 where "m2 = fold (middle_row p lt lf s) [row..middle_end - 1] m1"
  have cr: "Mat_create (rows lt) (cols lt) m = m"
    using wf by (intro Mat_create_same) simp_all
  have lane: "nld_step_scalar_one_lane p lt lf m s b e
              = (if e = rows lt then bottom_row p lt lf s row' m2 else m2)"
    by (simp add: nld_step_scalar_one_lane_def Let_def cr row_def middle_end_def row'_def
        m1_def m2_def)
  have p1: "px m1 y' x' = px m y' x'"
    using wf dims rng out by (auto simp: m1_def intro: px_top_row_other)
  have c1: "cols m1 = cols lt" using wf by (simp add: m1_def)
  have p2: "px m2 y' x' = px m1 y' x'"
    unfolding m2_def
    using c1 dims rng out by (intro px_fold_middle_other) (auto simp: row_def middle_end_def)
  have c2: "cols m2 = cols lt" using c1 by (simp add: m2_def)
  have p3: "px (bottom_row p lt lf s row' m2) y' x' = px m2 y' x'" if "e = rows lt"
  proof -
    have "row' = rows lt - 1"
      using lane_bottom_row_index [of "rows lt" b] dims rng that
      by (simp add: row'_def row_def middle_end_def)
    then show ?thesis
      using c2 dims rng out that by (intro px_bottom_row_other) auto
  qed
  show ?thesis using lane p1 p2 p3 by simp
qed

lemma lane_top_corners:
  assumes wf: "rows m = rows lt" "cols m = cols lt" "length (data m) = nat (rows lt * cols lt)"
    and dims: "2 \<le> rows lt" "1 \<le> cols lt"
    and rng: "0 < e" "e \<le> rows lt"
  shows "px (nld_step_scalar_one_lane p lt lf m s 0 e) 0 0 = 0"
    and "px (nld_step_scalar_one_lane p lt lf m s 0 e) 0 (cols lt - 1) = 0"
proof -
  define middle_end where "middle_end = min (rows lt - 1) e"
  define row' where "row' = (if 1 < middle_end then middle_end else 1)"
  define m1 where "m1 = top_row p lt lf s m"
  define m2 where "m2 = fold (middle_row p lt lf s) [1..middle_end - 1] m1"
  have cr: "Mat_create (rows lt) (cols lt) m = m"
    using wf by (intro Mat_create_same) simp_all
  have lane: "nld_step_scalar_one_lane p lt lf m s 0 e
              = (if e = rows lt then bottom_row p lt lf s row' m2 else m2)"
    by (simp add: nld_step_scalar_one_lane_def Let_def cr middle_end_def row'_def m1_def m2_def)
  have top: "px m1 0 0 = 0" "px m1 0 (cols lt - 1) = 0"
    using px_store_row_corners [of m 0] wf dims
    by (simp_all add: m1_def top_row_def)
  have c1: "cols m1 = cols lt" using wf by (simp add: m1_def)
  have c2: "cols m2 = cols lt" using c1 by (simp add: m2_def)
  have keep2: "px m2 0 x' = px m1 0 x'" if "0 \<le> x'" "x' < cols lt" for x'
    unfolding m2_def using c1 dims that by (intro px_fold_middle_other) auto
  have keep3: "px (bottom_row p lt lf s row' m2) 0 x' = px m2 0 x'" if "0 \<le> x'" "x' < cols lt" for x'
    using c2 dims that by (intro px_bottom_row_other) (auto simp: row'_def)
  show "px (nld_step_scalar_one_lane p lt lf m s 0 e) 0 0 = 0"
    using lane top(1) keep2 [of 0] keep3 [of 0] dims by simp
  show "px (nld_step_scalar_one_lane p lt lf m s 0 e) 0 (cols lt - 1) = 0"
    using lane top(2) keep2 [of "cols lt - 1"] keep3 [of "cols lt - 1"] dims by simp
qed

lemma lane_bottom_corners:
  assumes wf: "rows m = rows lt" "cols m = cols lt" "length (data m) = nat (rows lt * cols lt)"
    and dims: "2 \<le> rows lt" "1 \<le> cols lt"
    and rng: "0 \<le> b" "b < rows lt"
  shows "px (nld_step_scalar_one_lane p lt lf m s b (rows lt)) (rows lt - 1) 0 = 0"
    and "px (nld_step_scalar_one_lane p lt lf m s b (rows lt)) (rows lt - 1) (cols lt - 1) = 0"
proof -
  define row where "row = (if b = 0 then 1 else b)"
  define middle_end where "middle_end = min (rows lt - 1) (rows lt)"
  define row' where "row' = (if row < middle_end then middle_end else row)"
  define m1 where "m1 = (if b = 0 then top_row p lt lf s m else m)"
  define m2 where "m2 = fold (middle_row p lt lf s) [row..middle_end - 1] m1"
  have cr: "Mat_create (rows lt) (cols lt) m = m"
    using wf by (intro Mat_create_same) simp_all
  have lane: "nld_step_scalar_one_lane p lt lf m s b (rows lt) = bottom_row p lt lf s row' m2"
    by (simp add: nld_step_scalar_one_lane_def Let_def cr row_def middle_end_def row'_def
        m1_def m2_def)
  have r': "row' = rows lt - 1"
    using lane_bottom_row_index [of "rows lt" b] dims rng
    by (simp add: row'_def row_def middle_end_def)
  have w2: "rows m2 = rows lt" "cols m2 = cols lt" "length (data m2) = nat (rows lt * cols lt)"
    using wf by (simp_all add: m2_def m1_def)
  show "px (nld_step_scalar_one_lane p lt lf m s b (rows lt)) (rows lt - 1) 0 = 0"
    using px_store_row_corners(1) [of m2 "rows lt - 1"] w2 dims
    by (simp add: lane r' bottom_row_def)
  show "px (nld_step_scalar_one_lane p lt lf m s b (rows lt)) (rows lt - 1) (cols lt - 1) = 0"
    using px_store_row_corners(2) [of m2 "rows lt - 1"] w2 dims
    by (simp add: lane r' bottom_row_def)
qed

lemma lanes_fields:
  assumes "rows m = rows lt" "cols m = cols lt" "length (data m) = nat (rows lt * cols lt)"
  shows "rows (fold (\<lambda>(b, e) m. nld_step_scalar_one_lane p lt lf m s b e) rs m) = rows lt
       \<and> cols (fold (\<lambda>(b, e) m. nld_step_scalar_one_lane p lt lf m s b e) rs m) = cols lt
       \<and> length (data (fold (\<lambda>(b, e) m. nld_step_scalar_one_lane p lt lf m s b e) rs m))
           = nat (rows lt * cols lt)"
  using assms
proof (induction rs arbitrary: m)
  case Nil
  then show ?case by simp
next
  case (Cons r rs)
  obtain b e where r: "r = (b, e)" by (cases r)
  from Cons.IH [of "nld_step_scalar_one_lane p lt lf m s b e"] show ?case
    by (simp add: r)
qed

lemma lanes_keep_top_row:
  assumes "is_split a (rows lt) rs" "0 < a"
    and "rows m = rows lt" "cols m = cols lt" "length (data m) = nat (rows lt * cols lt)"
    and "2 \<le> rows lt" "1 \<le> cols lt" "0 \<le> x'" "x' < cols lt"
  shows "px (fold (\<lambda>(b, e) m. nld_step_scalar_one_lane p lt lf m s b e) rs m) 0 x' = px m 0 x'"
  using assms
proof (induction rs arbitrary: a m)
  case Nil
  then show ?case by simp
next
  case (Cons r rs)
  obtain b e where r: "r = (b, e)" by (cases r)
  from Cons.prems(1) r have spl: "b = a" "a < e" "e \<le> rows lt" "is_split e (rows lt) rs"
    by simp_all
  let ?m' = "nld_step_scalar_one_lane p lt lf m s b e"
  have "px (fold (\<lambda>(b, e) m. nld_step_scalar_one_lane p lt lf m s b e) rs ?m') 0 x' = px ?m' 0 x'"
    using spl Cons.prems by (intro Cons.IH [of e]) simp_all
  also have "\<dots> = px m 0 x'"
    using spl Cons.prems by (intro lane_frame) simp_all
  finally show ?case by (simp add: r)
qed

lemma lanes_bottom_corners:
  assumes "is_split a (rows lt) rs" "rs \<noteq> []" "0 \<le> a"
    and "rows m = rows lt" "cols m = cols lt" "length (data m) = nat (rows lt * cols lt)"
    and "2 \<le> rows lt" "1 \<le> cols lt"
  shows "px (fold (\<lambda>(b, e) m. nld_step_scalar_one_lane p lt lf m s b e) rs m) (rows lt - 1) 0 = 0
       \<and> px (fold (\<lambda>(b, e) m. nld_step_scalar_one_lane p lt lf m s b e) rs m) (rows lt - 1)
             (cols lt - 1) = 0"
  using assms
proof (induction rs arbitrary: a m)
  case Nil
  then show ?case by simp
next
  case (Cons r rs)
  obtain b e where r: "r = (b, e)" by (cases r)
  from Cons.prems(1) r have spl: "b = a" "a < e" "e \<le> rows lt" "is_split e (rows lt) rs"
    by simp_all
  let ?m' = "nld_step_scalar_one_lane p lt lf m s b e"
  show ?case
  proof (cases "rs = []")
    case True
    with spl have "e = rows lt" by simp
    with True r spl Cons.prems lane_bottom_corners [of m lt b p lf s] show ?thesis by simp
  next
    case False
    have "px (fold (\<lambda>(b, e) m. nld_step_scalar_one_lane p lt lf m s b e) rs ?m') (rows lt - 1) 0 = 0
       \<and> px (fold (\<lambda>(b, e) m. nld_step_scalar_one_lane p lt lf m s b e) rs ?m') (rows lt - 1)
             (cols lt - 1) = 0"
      using spl False Cons.prems by (intro Cons.IH [of e]) simp_all
    then show ?thesis by (simp add: r)
  qed
qed


lemma step_fields:
  assumes "ocl_non_linear_diffusion_step g lt lf (Mat_create (rows lt) (cols lt) lstep0) s = None"
  shows "rows (non_linear_diffusion_step p g lt lf lstep0 s) = rows lt"
    and "cols (non_linear_diffusion_step p g lt lf lstep0 s) = cols lt"
    and "length (data (non_linear_diffusion_step p g lt lf lstep0 s)) = nat (rows lt * cols lt)"
  using lanes_fields [of "Mat_create (rows lt) (cols lt) lstep0" lt p lf s "parallel_for_ranges g (rows lt)"] assms
  by (simp_all add: non_linear_diffusion_step_def)

lemma step_corners:
  assumes dims: "2 \<le> rows lt" "1 \<le> cols lt"
    and spl: "is_split 0 (rows lt) (parallel_for_ranges g (rows lt))"
    and ocl: "ocl_non_linear_diffusion_step g lt lf (Mat_create (rows lt) (cols lt) lstep0) s = None"
  shows "px (non_linear_diffusion_step p g lt lf lstep0 s) 0 0 = 0"
    and "px (non_linear_diffusion_step p g lt lf lstep0 s) 0 (cols lt - 1) = 0"
    and "px (non_linear_diffusion_step p g lt lf lstep0 s) (rows lt - 1) 0 = 0"
    and "px (non_linear_diffusion_step p g lt lf lstep0 s) (rows lt - 1) (cols lt - 1) = 0"
proof -
  let ?m0 = "Mat_create (rows lt) (cols lt) lstep0"
  define ranges where "ranges = parallel_for_ranges g (rows lt)"
  have spl': "is_split 0 (rows lt) ranges" using spl by (simp add: ranges_def)
  from spl' dims obtain e rs where rs: "ranges = (0, e) # rs" "0 < e" "e \<le> rows lt"
    "is_split e (rows lt) rs"
    by (cases ranges) auto
  let ?m1 = "nld_step_scalar_one_lane p lt lf ?m0 s 0 e"
  have run0: "non_linear_diffusion_step p g lt lf lstep0 s
             = fold (\<lambda>(b, e) m. nld_step_scalar_one_lane p lt lf m s b e) ranges ?m0"
    using ocl by (simp add: non_linear_diffusion_step_def ranges_def)
  have run: "non_linear_diffusion_step p g lt lf lstep0 s
             = fold (\<lambda>(b, e) m. nld_step_scalar_one_lane p lt lf m s b e) rs ?m1"
    by (simp add: run0 rs(1))
  have top: "px ?m1 0 0 = 0" "px ?m1 0 (cols lt - 1) = 0"
    using dims rs by (simp_all add: lane_top_corners)
  have keep: "px (fold (\<lambda>(b, e) m. nld_step_scalar_one_lane p lt lf m s b e) rs ?m1) 0 x' = px ?m1 0 x'"
    if "0 \<le> x'" "x' < cols lt" for x'
    using rs dims that by (intro lanes_keep_top_row [of e]) simp_all
  show "px (non_linear_diffusion_step p g lt lf lstep0 s) 0 0 = 0"
    using run top(1) keep [of 0] dims by simp
  show "px (non_linear_diffusion_step p g lt lf lstep0 s) 0 (cols lt - 1) = 0"
    using run top(2) keep [of "cols lt - 1"] dims by simp
  have "px (fold (\<lambda>(b, e) m. nld_step_scalar_one_lane p lt lf m s b e) ranges ?m0) (rows lt - 1) 0 = 0
       \<and> px (fold (\<lambda>(b, e) m. nld_step_scalar_one_lane p lt lf m s b e) ranges ?m0) (rows lt - 1)
             (cols lt - 1) = 0"
    using spl' dims rs(1) by (intro lanes_bottom_corners [of 0]) simp_all
  then show "px (non_linear_diffusion_step p g lt lf lstep0 s) (rows lt - 1) 0 = 0"
    and "px (non_linear_diffusion_step p g lt lf lstep0 s) (rows lt - 1) (cols lt - 1) = 0"
    by (simp_all add: run0)
qed

lemma px_Mat_add:
  assumes "nat (y * cols m1 + x) < length (data m1)" "nat (y * cols m1 + x) < length (data m2)"
  shows "px (Mat_add p m1 m2) y x = fl p (px m1 y x + data m2 ! nat (y * cols m1 + x))"
  using assms by (simp add: Mat_add_def px_def fadd_def)

lemma fed_steps_single:
  "fed_steps a g lf [t] (lt, lstep0)
     = (add g lt (non_linear_diffusion_step a g lt lf lstep0 (fmul a t (1 / 2))),
        non_linear_diffusion_step a g lt lf lstep0 (fmul a t (1 / 2)))"
  by (simp add: fed_steps_def Let_def)

text \<open>
  C2 (as amended). One pass of the diffusion loop of
  \<^verbatim>\<open>Create_Nonlinear_Scale_Space\<close> on an image of at least two rows, when the scalar
  kernel runs and \<^verbatim>\<open>parallel_for_\<close> covers the rows: the four corners of the step
  increment \<open>Lstep\<close> are \<open>0\<close>, and the four corners of the image after
  \<^verbatim>\<open>add(Lt, Lstep, Lt)\<close> are those of the image before the step, \<open>fl (Lt + 0)\<close>.
  They are not \<open>0\<close> unless they were before.
\<close>

theorem diffusion_step_corners:
  assumes "Mat_wf lt" and "2 \<le> rows lt" and "1 \<le> cols lt"
    and "is_split 0 (rows lt) (parallel_for_ranges g (rows lt))"
    and "ocl_non_linear_diffusion_step g lt lf (Mat_create (rows lt) (cols lt) lstep0) (fmul a t (1 / 2)) = None"
  shows "list_all (\<lambda>(y, x). px (snd (fed_steps a g lf [t] (lt, lstep0))) y x = 0
                       \<and> (add g = Mat_add a \<longrightarrow>
                            px (fst (fed_steps a g lf [t] (lt, lstep0))) y x = fl a (px lt y x)))
           [(0, 0), (0, cols lt - 1), (rows lt - 1, 0), (rows lt - 1, cols lt - 1)]"
proof -
  let ?st = "non_linear_diffusion_step a g lt lf lstep0 (fmul a t (1 / 2))"
  have len: "length (data lt) = nat (rows lt * cols lt)"
    using assms(1) by (simp add: Mat_wf_def)
  note f = step_fields [OF assms(5), of a]
  note z = step_corners [OF assms(2,3,4,5), of a]
  have sum: "px (Mat_add a lt ?st) y x = fl a (px lt y x + px ?st y x)"
    if "0 \<le> y" "y < rows lt" "0 \<le> x" "x < cols lt" for y x
  proof -
    have "nat (y * cols lt + x) < nat (rows lt * cols lt)"
      using that by (intro flat_index_in_range) auto
    then have "px (Mat_add a lt ?st) y x = fl a (px lt y x + data ?st ! nat (y * cols lt + x))"
      by (intro px_Mat_add) (simp_all add: f len)
    then show ?thesis by (simp add: px_def f)
  qed
  show ?thesis
    using z sum [of 0 0] sum [of 0 "cols lt - 1"] sum [of "rows lt - 1" 0]
      sum [of "rows lt - 1" "cols lt - 1"] assms(2,3)
    by (simp add: fed_steps_single)
qed

theorem diffusion_step_corners_witness:
  "Mat_wf ramp_3x3 \<and> 2 \<le> rows ramp_3x3 \<and> 1 \<le> cols ramp_3x3
   \<and> is_split 0 (rows ramp_3x3) (parallel_for_ranges two_lanes (rows ramp_3x3))
   \<and> add two_lanes = Mat_add exact_fp
   \<and> map (\<lambda>(y, x). px (snd (fed_steps exact_fp two_lanes ones_3x3 [1] (ramp_3x3, stale_3x3))) y x)
         [(0, 0), (0, 2), (2, 0), (2, 2)] = [0, 0, 0, 0]
   \<and> map (\<lambda>(y, x). px (fst (fed_steps exact_fp two_lanes ones_3x3 [1] (ramp_3x3, stale_3x3))) y x)
         [(0, 0), (0, 2), (2, 0), (2, 2)] = [1, 3, 7, 10]"
proof -
  have h: "Mat_wf ramp_3x3" "2 \<le> rows ramp_3x3" "1 \<le> cols ramp_3x3"
    "is_split 0 (rows ramp_3x3) (parallel_for_ranges two_lanes (rows ramp_3x3))"
    by (simp_all add: Mat_wf_def ramp_3x3_def two_lanes_def toy_imgops_def)
  have o: "ocl_non_linear_diffusion_step two_lanes ramp_3x3 ones_3x3
      (Mat_create (rows ramp_3x3) (cols ramp_3x3) stale_3x3) (fmul exact_fp 1 (1 / 2)) = None"
    by (simp add: two_lanes_def toy_imgops_def)
  have ad: "add two_lanes = Mat_add exact_fp" by (simp add: two_lanes_def toy_imgops_def)
  have c: "cols ramp_3x3 - 1 = 2" "rows ramp_3x3 - 1 = 2" by (simp_all add: ramp_3x3_def)
  have v: "px ramp_3x3 0 0 = 1" "px ramp_3x3 0 2 = 3" "px ramp_3x3 2 0 = 7" "px ramp_3x3 2 2 = 10"
    by (simp_all add: ramp_3x3_def px_def)
  have e: "fl exact_fp u = u" for u by (simp add: exact_fp_def)
  from diffusion_step_corners [OF h o]
  have "map (\<lambda>(y, x). px (snd (fed_steps exact_fp two_lanes ones_3x3 [1] (ramp_3x3, stale_3x3))) y x)
         [(0, 0), (0, 2), (2, 0), (2, 2)] = [0, 0, 0, 0]
   \<and> map (\<lambda>(y, x). px (fst (fed_steps exact_fp two_lanes ones_3x3 [1] (ramp_3x3, stale_3x3))) y x)
         [(0, 0), (0, 2), (2, 0), (2, 2)] = [1, 3, 7, 10]"
    by (simp add: c ad e v)
  with h ad show ?thesis by simp
qed

text \<open>
  The claim as stated fails: on a constant image with value \<open>1\<close> the corner of the
  image after the step is \<open>1\<close>; only the increment is \<open>0\<close> there.
\<close>

theorem diffusion_step_corner_counterexample:
  "px (fst (fed_steps exact_fp toy_imgops ones_2x2 [1] (ones_2x2, stale_2x2))) 0 0 = 1
   \<and> px (snd (fed_steps exact_fp toy_imgops ones_2x2 [1] (ones_2x2, stale_2x2))) 0 0 = 0"
  by (simp add: fed_steps_single non_linear_diffusion_step_def nld_step_scalar_one_lane_def
      toy_imgops_def Mat_create_def ones_2x2_def stale_2x2_def top_row_def bottom_row_def
      middle_row_def store_row_def wr_def flux_def px_def Mat_add_def upto.simps Let_def
      exact_fp_def fadd_def fsub_def fmul_def)

end
